theory Spec2Isabelle
  imports Complex_Main "HOL-Library.Sublist" "HOL-Library.Multiset"
begin

section \<open>Tables\<close>

text \<open>
  A Spark or pandas DataFrame is a list of column names and a list of rows; a row is a
  list of cells, positionally aligned with the column names. A cell is a value or SQL
  NULL (\<open>None\<close>): an attribute that a \<open>row\<close> element of the XML file
  does not carry is NULL in the loaded table. The values that occur are the integers
  spark-xml infers as \<open>long\<close> and text (dates are kept as text). The repository
  compares and copies the integers and never computes with them, so they are unbounded
  here.
\<close>

datatype val = LongV int | StringV string

type_synonym cell = "val option"

type_synonym row = "cell list"

record dataframe =
  columns :: "string list"
  rows :: "row list"

datatype error =
    AnalysisException string
  | LoadFailure string
  | KeyError string
  | DatabaseError string

text \<open>Reading cell \<open>i\<close> of a row; a row shorter than the header reads as NULL there.\<close>

definition cell :: "row \<Rightarrow> nat \<Rightarrow> cell" where
  "cell r i = (if i < length r then r ! i else None)"

text \<open>
  Resolving a column reference such as \<open>f.col('p.Tags')\<close> against a table: the position of
  the one column of that name. Spark's analyser raises \<open>AnalysisException\<close> when no
  column or more than one column answers to the name. Names are compared exactly, as the
  repository writes them (Spark itself ignores case by default).
\<close>

definition resolve :: "dataframe \<Rightarrow> string \<Rightarrow> error + nat" where
  "resolve df c =
     (case filter (\<lambda>i. columns df ! i = c) [0..<length (columns df)] of
        [] \<Rightarrow> Inl (AnalysisException (''cannot resolve '' @ c))
      | [i] \<Rightarrow> Inr i
      | _ \<Rightarrow> Inl (AnalysisException (''ambiguous reference '' @ c)))"

text \<open>The value of the named column in a row of a table; NULL when the name does not resolve.\<close>

definition col :: "dataframe \<Rightarrow> string \<Rightarrow> row \<Rightarrow> cell" where
  "col df c r = (case resolve df c of Inl e \<Rightarrow> None | Inr i \<Rightarrow> cell r i)"

section \<open>Column expressions\<close>

text \<open>
  The decimal text of an integer, which is what Spark's cast of a \<open>long\<close> to a string
  produces where a string function is applied to a numeric column.
\<close>

definition digit_char :: "nat \<Rightarrow> char" where
  "digit_char d = ''0123456789'' ! d"

function string_of_nat :: "nat \<Rightarrow> string" where
  "string_of_nat n =
     (if n < 10 then [digit_char n] else string_of_nat (n div 10) @ [digit_char (n mod 10)])"
  by pat_completeness auto
termination
  by (relation "measure id") auto

definition string_of_int :: "int \<Rightarrow> string" where
  "string_of_int i = (if i < 0 then CHR ''-'' # string_of_nat (nat (- i)) else string_of_nat (nat i))"

fun cast_string :: "val \<Rightarrow> string" where
  "cast_string (StringV s) = s"
| "cast_string (LongV i) = string_of_int i"

text \<open>\<open>f.lit(s)\<close>: a literal string column, never NULL.\<close>

definition f_lit :: "string \<Rightarrow> cell" where
  "f_lit s = Some (StringV s)"

text \<open>
  \<open>f.concat(c1, ..., cn)\<close>: the concatenation of the arguments as strings; NULL as soon as
  one argument is NULL.
\<close>

fun f_concat :: "cell list \<Rightarrow> cell" where
  "f_concat [] = Some (StringV [])"
| "f_concat (None # cs) = None"
| "f_concat (Some v # cs) =
     (case f_concat cs of
        None \<Rightarrow> None
      | Some w \<Rightarrow> Some (StringV (cast_string v @ cast_string w)))"

text \<open>
  \<open>Column.contains\<close>: whether the right string occurs in the left one as a run of
  consecutive characters, scanning the left string from each position in turn. The answer
  is NULL (\<open>None\<close>) when either side is NULL.
\<close>

fun starts_with :: "string \<Rightarrow> string \<Rightarrow> bool" where
  "starts_with s [] = True"
| "starts_with [] (c # sub) = False"
| "starts_with (d # s) (c # sub) = (d = c \<and> starts_with s sub)"

fun str_contains :: "string \<Rightarrow> string \<Rightarrow> bool" where
  "str_contains [] sub = starts_with [] sub"
| "str_contains (d # s) sub = (starts_with (d # s) sub \<or> str_contains s sub)"

fun contains :: "cell \<Rightarrow> cell \<Rightarrow> bool option" where
  "contains (Some v) (Some w) = Some (str_contains (cast_string v) (cast_string w))"
| "contains _ _ = None"

section \<open>Loading: \<open>SparkClient.parse_xml\<close>\<close>

text \<open>
  \<open>parse_xml\<close> receives from spark-xml the table read from the file and renames its
  columns: \<open>new_column_names = [c[1:] for c in df.columns]\<close>, then
  \<open>df.toDF(*new_column_names)\<close>. The slice \<open>c[1:]\<close> of an empty name is the empty name.
  The reader itself is outside the repository, so the table it returns is the argument.
\<close>

definition new_column_names :: "string list \<Rightarrow> string list" where
  "new_column_names cols = map (drop 1) cols"

definition toDF :: "dataframe \<Rightarrow> string list \<Rightarrow> dataframe" where
  "toDF df names = df\<lparr>columns := names\<rparr>"

definition parse_xml :: "dataframe \<Rightarrow> dataframe" where
  "parse_xml df = toDF df (new_column_names (columns df))"

section \<open>Deriving the association: \<open>PostsTags.__init__\<close>\<close>

text \<open>
  The inner join of posts \<open>p\<close> and tags \<open>t\<close> on
  \<open>p.Tags.contains(concat('<', t.TagName, '>'))\<close>, then the selection of \<open>p.Id\<close> as
  \<open>PostId\<close>, \<open>t.Id\<close> as \<open>TagId\<close> and \<open>t.TagName\<close>. A pair of rows is kept when the
  condition is true; a condition that is false or NULL drops it. Spark promises no row
  order; the list below enumerates the pairs post by post.
\<close>

definition join_condition :: "nat \<Rightarrow> nat \<Rightarrow> row \<Rightarrow> row \<Rightarrow> bool option" where
  "join_condition p_Tags t_TagName p t =
     contains (cell p p_Tags) (f_concat [f_lit ''<'', cell t t_TagName, f_lit ''>''])"

definition PostsTags :: "dataframe \<Rightarrow> dataframe \<Rightarrow> error + dataframe" where
  "PostsTags posts_df tags_df =
     (case resolve posts_df ''Tags'' of Inl e \<Rightarrow> Inl e | Inr p_Tags \<Rightarrow>
     (case resolve tags_df ''TagName'' of Inl e \<Rightarrow> Inl e | Inr t_TagName \<Rightarrow>
     (case resolve posts_df ''Id'' of Inl e \<Rightarrow> Inl e | Inr p_Id \<Rightarrow>
     (case resolve tags_df ''Id'' of Inl e \<Rightarrow> Inl e | Inr t_Id \<Rightarrow>
        Inr \<lparr>columns = [''PostId'', ''TagId'', ''TagName''],
             rows = [[cell p p_Id, cell t t_Id, cell t t_TagName].
                       p \<leftarrow> rows posts_df, t \<leftarrow> rows tags_df,
                       join_condition p_Tags t_TagName p t = Some True]\<rparr>))))"

section \<open>Validation: the \<open>check\<close> methods\<close>

text \<open>
  A pydeequ \<open>Check\<close> is a level, a description and the list of constraints added to it, in
  the order of the method calls. Assertions (\<open>lambda x: x >= 20000\<close>) are predicates; the
  completeness thresholds are the decimal fractions written in the source, as rationals.
\<close>

datatype CheckLevel = Error | Warning

datatype constraint =
    hasSize "int \<Rightarrow> bool"
  | isUnique string
  | isComplete string
  | isNonNegative string
  | hasCompleteness string "rat \<Rightarrow> bool" string
  | isContainedIn string "string list"

record check =
  level :: CheckLevel
  description :: string
  constraints :: "constraint list"

text \<open>
  What a verification run returns: for the check, its description, level and overall
  status, and one result per constraint that the engine reports.
\<close>

record constraint_result =
  constraint :: string
  constraint_status :: string
  constraint_message :: string

record check_result =
  check_name :: string
  check_level :: string
  check_status :: string
  constraint_results :: "constraint_result list"

text \<open>
  \<open>VerificationSuite(spark).onData(df).addCheck(check).run()\<close> is pydeequ's, not the
  repository's: the \<open>check\<close> methods and \<open>main\<close> take it as the parameter \<open>run\<close>.
\<close>

type_synonym engine = "check \<Rightarrow> dataframe \<Rightarrow> check_result"

text \<open>
  \<open>SparkClient.check_result_to_df\<close> (\<open>VerificationResult.checkResultsAsDataFrame\<close>): one
  row of six text columns per constraint result.
\<close>

definition check_result_columns :: "string list" where
  "check_result_columns =
     [''check'', ''check_level'', ''check_status'',
      ''constraint'', ''constraint_status'', ''constraint_message'']"

definition check_result_to_df :: "check_result \<Rightarrow> dataframe" where
  "check_result_to_df res =
     \<lparr>columns = check_result_columns,
      rows = map (\<lambda>c. [Some (StringV (check_name res)), Some (StringV (check_level res)),
                        Some (StringV (check_status res)), Some (StringV (constraint c)),
                        Some (StringV (constraint_status c)),
                        Some (StringV (constraint_message c))])
                 (constraint_results res)\<rparr>"

definition Posts_suite :: check where
  "Posts_suite =
     \<lparr>level = Warning, description = ''Posts Check'', constraints =
       [hasSize (\<lambda>x. x \<ge> 20000),
        isUnique ''Id'',
        isComplete ''Id'',
        isNonNegative ''Id'',
        isNonNegative ''AcceptedAnswerId'',
        isNonNegative ''AnswerCount'',
        hasCompleteness ''AnswerCount'' (\<lambda>x. x \<ge> 44 / 100) ''It should be above 0.44!'',
        isComplete ''Body'',
        isComplete ''LastActivityDate'',
        hasCompleteness ''Title'' (\<lambda>x. x \<ge> 44 / 100) ''It should be above 0.44!'',
        isNonNegative ''ParentId'',
        hasCompleteness ''ParentId'' (\<lambda>x. x \<ge> 45 / 100) ''It should be above 0.45!'',
        hasCompleteness ''LastEditDate'' (\<lambda>x. x \<ge> 59 / 100) ''It should be above 0.59!'',
        hasCompleteness ''LastEditorUserId'' (\<lambda>x. x \<ge> 58 / 100) ''It should be above 0.58!'',
        isContainedIn ''PostTypeId'' [''2'', ''1'', ''5'', ''4'', ''6'', ''7''],
        isComplete ''PostTypeId'',
        isNonNegative ''ViewCount'',
        hasCompleteness ''ViewCount'' (\<lambda>x. x \<ge> 44 / 100) ''It should be above 0.44!'',
        isComplete ''Score'',
        hasCompleteness ''Tags'' (\<lambda>x. x \<ge> 44 / 100) ''It should be above 0.44!'',
        hasCompleteness ''OwnerUserId'' (\<lambda>x. x \<ge> 98 / 100) ''It should be above 0.98!'',
        isComplete ''CommentCount'',
        isNonNegative ''CommentCount'',
        isNonNegative ''FavoriteCount'',
        isContainedIn ''ContentLicense'' [''CC BY-SA 4.0'', ''CC BY-SA 3.0''],
        isComplete ''ContentLicense'']\<rparr>"

definition Tags_suite :: check where
  "Tags_suite =
     \<lparr>level = Warning, description = ''Tags Check'', constraints =
       [hasSize (\<lambda>x. x \<ge> 900),
        isComplete ''Id'',
        isNonNegative ''Id'',
        isUnique ''Id'',
        isNonNegative ''ExcerptPostId'',
        hasCompleteness ''ExcerptPostId'' (\<lambda>x. x \<ge> 77 / 100) ''It should be above 0.77!'',
        isComplete ''TagName'',
        isUnique ''TagName'',
        isNonNegative ''WikiPostId'',
        hasCompleteness ''WikiPostId'' (\<lambda>x. x \<ge> 77 / 100) ''It should be above 0.77!'',
        isComplete ''Count'',
        isNonNegative ''Count'']\<rparr>"

definition PostsTags_suite :: check where
  "PostsTags_suite =
     \<lparr>level = Warning, description = ''Posts Tags Check'', constraints =
       [hasSize (\<lambda>x. x \<ge> 30000),
        isComplete ''PostId'',
        isNonNegative ''PostId'',
        isComplete ''TagName'',
        isComplete ''TagId'',
        isNonNegative ''TagId'']\<rparr>"

definition Posts_check :: "engine \<Rightarrow> dataframe \<Rightarrow> dataframe" where
  "Posts_check run df = check_result_to_df (run Posts_suite df)"

definition Tags_check :: "engine \<Rightarrow> dataframe \<Rightarrow> dataframe" where
  "Tags_check run df = check_result_to_df (run Tags_suite df)"

definition PostsTags_check :: "engine \<Rightarrow> dataframe \<Rightarrow> dataframe" where
  "PostsTags_check run df = check_result_to_df (run PostsTags_suite df)"

section \<open>The relational store: \<open>db.py\<close>\<close>

text \<open>
  The SQL statements of \<open>db.py\<close> as data: a column is its name, its type and its column
  constraints; a table constraint is a foreign key (column, referenced table, referenced
  column) or a uniqueness constraint over several columns.
\<close>

datatype sql_type = INTEGER | TEXT | TIMESTAMP

datatype column_constraint = PRIMARY_KEY | NOT_NULL | UNIQUE

datatype table_constraint =
    FOREIGN_KEY string string string
  | UNIQUE_COLUMNS "string list"

record table_definition =
  column_definitions :: "(string \<times> sql_type \<times> column_constraint list) list"
  table_constraints :: "table_constraint list"

datatype statement =
    DROP_TABLE_IF_EXISTS string
  | CREATE_TABLE_IF_NOT_EXISTS string table_definition

text \<open>
  A table of the store is the definition it was created with (\<open>None\<close> when pandas created
  it from a frame) and the frames loaded into it, oldest first. A database is the tables
  it holds, by name.
\<close>

record sql_table =
  definition_of :: "table_definition option"
  loads :: "dataframe list"

type_synonym database = "string \<rightharpoonup> sql_table"

text \<open>The \<open>if_exists\<close> modes of pandas' \<open>to_sql\<close> that the repository uses.\<close>

datatype if_exists = replace_mode | append_mode

text \<open>
  Whether sqlite takes the rows of a frame into an existing table is decided by sqlite and
  pandas, outside the repository: the writes below take that decision as the parameter
  \<open>accepts\<close>, given the table as it stands and the frame.
\<close>

type_synonym acceptance = "sql_table \<Rightarrow> dataframe \<Rightarrow> bool"

text \<open>
  \<open>Database.to_sql\<close>: with \<open>replace\<close> (\<open>replace_mode\<close>) the table is dropped and created
  anew from the frame, which therefore fits it; with \<open>append\<close> (\<open>append_mode\<close>, the default)
  the frame is inserted into the table, which is created from the frame when it does not
  exist. pandas inserts a frame in one transaction: when sqlite refuses it, nothing of the
  frame is stored, the table is as before and the exception propagates to the caller.
  \<open>Database.execute\<close> runs one statement.
\<close>

fun db_to_sql :: "acceptance \<Rightarrow> dataframe \<Rightarrow> string \<Rightarrow> if_exists \<Rightarrow> database \<Rightarrow> error + database" where
  "db_to_sql accepts df tab replace_mode d =
     Inr (d(tab \<mapsto> \<lparr>definition_of = None, loads = [df]\<rparr>))"
| "db_to_sql accepts df tab append_mode d =
     (case d tab of
        None \<Rightarrow> Inr (d(tab \<mapsto> \<lparr>definition_of = None, loads = [df]\<rparr>))
      | Some t \<Rightarrow>
          if accepts t df then Inr (d(tab \<mapsto> t\<lparr>loads := loads t @ [df]\<rparr>))
          else Inl (DatabaseError tab))"

definition fresh_table :: "table_definition \<Rightarrow> sql_table" where
  "fresh_table def = \<lparr>definition_of = Some def, loads = []\<rparr>"

fun db_execute :: "statement \<Rightarrow> database \<Rightarrow> database" where
  "db_execute (DROP_TABLE_IF_EXISTS tab) d = d(tab := None)"
| "db_execute (CREATE_TABLE_IF_NOT_EXISTS tab def) d =
     (case d tab of
        None \<Rightarrow> d(tab \<mapsto> fresh_table def)
      | Some t \<Rightarrow> d)"

text \<open>
  The check that sqlite makes on an insert, as far as the declarations of \<open>db.py\<close> go. A
  frame is refused when it repeats a column name or names a column that the table does not
  have, when a row has no value for a \<open>NOT NULL\<close> column (a column that the frame lacks has
  no value in any row), or when a value under \<open>PRIMARY KEY\<close> or \<open>UNIQUE\<close>, or a
  combination of values under a \<open>UNIQUE\<close> table constraint, is already in the table or
  occurs twice in the frame. NULL clashes with nothing, and under \<open>INTEGER PRIMARY KEY\<close>
  sqlite replaces it by a fresh key, taken here to differ from every key present. sqlite
  does not enforce foreign keys unless asked to, and the repository does not ask; nor does
  it hold a value to the declared type of its column. This check serves the sample runs:
  the statements about \<open>main\<close> hold for every \<open>accepts\<close>.
\<close>

definition table_columns :: "sql_table \<Rightarrow> string list" where
  "table_columns t =
     (case definition_of t of
        Some def \<Rightarrow> map fst (column_definitions def)
      | None \<Rightarrow> (case loads t of [] \<Rightarrow> [] | f # fs \<Rightarrow> columns f))"

definition frame_column :: "dataframe \<Rightarrow> string \<Rightarrow> cell list" where
  "frame_column df c = map (col df c) (rows df)"

definition frame_tuples :: "dataframe \<Rightarrow> string list \<Rightarrow> cell list list" where
  "frame_tuples df cs = map (\<lambda>r. map (\<lambda>c. col df c r) cs) (rows df)"

definition no_clash :: "cell list list \<Rightarrow> bool" where
  "no_clash keys = distinct (filter (\<lambda>k. None \<notin> set k) keys)"

fun column_constraint_met :: "sql_table \<Rightarrow> dataframe \<Rightarrow> string \<Rightarrow> column_constraint \<Rightarrow> bool" where
  "column_constraint_met t df c NOT_NULL = (None \<notin> set (frame_column df c))"
| "column_constraint_met t df c PRIMARY_KEY =
     no_clash (concat (map (\<lambda>f. frame_tuples f [c]) (loads t)) @ frame_tuples df [c])"
| "column_constraint_met t df c UNIQUE =
     no_clash (concat (map (\<lambda>f. frame_tuples f [c]) (loads t)) @ frame_tuples df [c])"

fun table_constraint_met :: "sql_table \<Rightarrow> dataframe \<Rightarrow> table_constraint \<Rightarrow> bool" where
  "table_constraint_met t df (FOREIGN_KEY c tab k) = True"
| "table_constraint_met t df (UNIQUE_COLUMNS cs) =
     no_clash (concat (map (\<lambda>f. frame_tuples f cs) (loads t)) @ frame_tuples df cs)"

definition sqlite_accepts :: acceptance where
  "sqlite_accepts t df \<longleftrightarrow>
     distinct (columns df) \<and> set (columns df) \<subseteq> set (table_columns t) \<and>
     (case definition_of t of
        None \<Rightarrow> True
      | Some def \<Rightarrow>
          list_all (\<lambda>(c, ty, cs). list_all (column_constraint_met t df c) cs)
            (column_definitions def) \<and>
          list_all (table_constraint_met t df) (table_constraints def))"

definition posts_definition :: table_definition where
  "posts_definition =
     \<lparr>column_definitions =
        [(''Id'', INTEGER, [PRIMARY_KEY]),
         (''PostTypeId'', INTEGER, [NOT_NULL]),
         (''AcceptedAnswerId'', INTEGER, []),
         (''CreationDate'', TIMESTAMP, []),
         (''Score'', INTEGER, [NOT_NULL]),
         (''ViewCount'', INTEGER, []),
         (''Body'', TEXT, [NOT_NULL]),
         (''OwnerUserId'', INTEGER, []),
         (''LastEditorUserId'', INTEGER, []),
         (''LastEditDate'', TIMESTAMP, []),
         (''LastActivityDate'', TIMESTAMP, [NOT_NULL]),
         (''Title'', TEXT, []),
         (''Tags'', TEXT, []),
         (''AnswerCount'', INTEGER, []),
         (''CommentCount'', INTEGER, [NOT_NULL]),
         (''FavoriteCount'', INTEGER, []),
         (''ContentLicense'', TEXT, [NOT_NULL]),
         (''ParentId'', INTEGER, []),
         (''ClosedDate'', TIMESTAMP, []),
         (''CommunityOwnedDate'', TIMESTAMP, []),
         (''LastEditorDisplayName'', TEXT, []),
         (''OwnerDisplayName'', TEXT, [])],
      table_constraints =
        [FOREIGN_KEY ''AcceptedAnswerId'' ''posts'' ''Id'',
         FOREIGN_KEY ''ParentId'' ''posts'' ''Id'']\<rparr>"

definition tags_definition :: table_definition where
  "tags_definition =
     \<lparr>column_definitions =
        [(''Id'', INTEGER, [PRIMARY_KEY]),
         (''TagName'', TEXT, [UNIQUE, NOT_NULL]),
         (''Count'', INTEGER, [NOT_NULL]),
         (''ExcerptPostId'', INTEGER, []),
         (''WikiPostId'', INTEGER, [])],
      table_constraints =
        [FOREIGN_KEY ''ExcerptPostId'' ''posts'' ''Id'',
         FOREIGN_KEY ''WikiPostId'' ''posts'' ''Id'']\<rparr>"

definition posts_tags_definition :: table_definition where
  "posts_tags_definition =
     \<lparr>column_definitions =
        [(''PostId'', INTEGER, [NOT_NULL]),
         (''TagId'', INTEGER, [NOT_NULL]),
         (''TagName'', TEXT, [NOT_NULL])],
      table_constraints =
        [FOREIGN_KEY ''PostId'' ''posts'' ''Id'',
         FOREIGN_KEY ''TagId'' ''tags'' ''Id'',
         UNIQUE_COLUMNS [''PostId'', ''TagId'']]\<rparr>"

text \<open>The statements that the three \<open>create\<close> methods execute, in order.\<close>

definition Posts_create :: "statement list" where
  "Posts_create =
     [DROP_TABLE_IF_EXISTS ''posts'', CREATE_TABLE_IF_NOT_EXISTS ''posts'' posts_definition]"

definition Tags_create :: "statement list" where
  "Tags_create =
     [DROP_TABLE_IF_EXISTS ''tags'', CREATE_TABLE_IF_NOT_EXISTS ''tags'' tags_definition]"

definition PostsTags_create :: "statement list" where
  "PostsTags_create =
     [DROP_TABLE_IF_EXISTS ''posts_tags'',
      CREATE_TABLE_IF_NOT_EXISTS ''posts_tags'' posts_tags_definition]"

section \<open>The run: \<open>main\<close>\<close>

text \<open>
  The world a run acts on: the XML files as spark-xml reads them (\<open>None\<close> where the file is
  missing or malformed, so that the load fails), the parquet snapshots by path, the sqlite
  databases by path (a path never written holds the empty database), and the trace of the
  effects performed so far, oldest first.
\<close>

datatype event =
    Load string
  | WriteParquet string
  | Verification string
  | Connect string
  | ToSql string if_exists
  | Execute statement
  | SparkStop
  | Print string

record world =
  xml_files :: "string \<rightharpoonup> dataframe"
  parquet_files :: "string \<rightharpoonup> dataframe"
  databases :: "string \<Rightarrow> database"
  trace :: "event list"

text \<open>
  How a run ends: \<open>main\<close> returns, or \<open>sys.exit(message)\<close> is called, or an exception
  is raised and not caught (\<open>main\<close> has no handler, so the run stops where it is raised). \<open>sys.exit\<close> with a string prints it on the error stream and
  exits with status 1; so does an uncaught exception, with its traceback.
\<close>

datatype outcome = Returned | SystemExit string | Raised error

fun exit_status :: "outcome \<Rightarrow> int" where
  "exit_status Returned = 0"
| "exit_status (SystemExit msg) = 1"
| "exit_status (Raised e) = 1"

definition os_sep :: string where
  "os_sep = ''/''"

definition log_event :: "event \<Rightarrow> world \<Rightarrow> world" where
  "log_event ev w = w\<lparr>trace := trace w @ [ev]\<rparr>"

text \<open>\<open>Posts.__init__\<close> and \<open>Tags.__init__\<close>: \<open>sc.parse_xml(sc.path + os.sep + xml, ...)\<close>.\<close>

definition load_xml :: "string \<Rightarrow> string \<Rightarrow> world \<Rightarrow> (error + dataframe) \<times> world" where
  "load_xml path xml w =
     (case xml_files w (path @ os_sep @ xml) of
        None \<Rightarrow> (Inl (LoadFailure (path @ os_sep @ xml)), w)
      | Some raw \<Rightarrow> (Inr (parse_xml raw), log_event (Load (path @ os_sep @ xml)) w))"

text \<open>\<open>SparkClient.write_parquet\<close>: \<open>df.write.mode('overwrite').parquet(path + os.sep + name + '.parquet')\<close>.\<close>

definition write_parquet :: "string \<Rightarrow> dataframe \<Rightarrow> string \<Rightarrow> world \<Rightarrow> world" where
  "write_parquet path df name w =
     log_event (WriteParquet (path @ os_sep @ name @ ''.parquet''))
       (w\<lparr>parquet_files := (parquet_files w)(path @ os_sep @ name @ ''.parquet'' \<mapsto> df)\<rparr>)"

text \<open>Running one of the \<open>check\<close> methods, which evaluates the suite at once.\<close>

definition verify :: "string \<Rightarrow> dataframe \<Rightarrow> world \<Rightarrow> dataframe \<times> world" where
  "verify name res w = (res, log_event (Verification name) w)"

text \<open>Spark's \<open>union\<close>: the rows of both tables under the columns of the first.\<close>

definition union_df :: "dataframe \<Rightarrow> dataframe \<Rightarrow> dataframe" where
  "union_df a b = \<lparr>columns = columns a, rows = rows a @ rows b\<rparr>"

definition Database :: "string \<Rightarrow> world \<Rightarrow> world" where
  "Database url w = log_event (Connect url) w"

definition to_sql ::
  "acceptance \<Rightarrow> string \<Rightarrow> dataframe \<Rightarrow> string \<Rightarrow> if_exists \<Rightarrow> world \<Rightarrow> error + world" where
  "to_sql accepts url df tab mode w =
     (case db_to_sql accepts df tab mode (databases w url) of
        Inl e \<Rightarrow> Inl e
      | Inr d \<Rightarrow> Inr (log_event (ToSql tab mode) (w\<lparr>databases := (databases w)(url := d)\<rparr>)))"

definition execute :: "string \<Rightarrow> statement \<Rightarrow> world \<Rightarrow> world" where
  "execute url s w =
     log_event (Execute s) (w\<lparr>databases := (databases w)(url := db_execute s (databases w url))\<rparr>)"

definition create :: "string \<Rightarrow> statement list \<Rightarrow> world \<Rightarrow> world" where
  "create url stmts w = fold (execute url) stmts w"

definition stop :: "world \<Rightarrow> world" where
  "stop w = log_event SparkStop w"

definition failure_message :: string where
  "failure_message =
     ''Data validation check has failed! See check_results table for more details.''"

definition main :: "engine \<Rightarrow> acceptance \<Rightarrow> string \<Rightarrow> world \<Rightarrow> outcome \<times> world" where
  "main run accepts path w0 =
     (case load_xml path ''Posts.xml'' w0 of
        (Inl e, w) \<Rightarrow> (Raised e, w)
      | (Inr posts_df, w) \<Rightarrow>
     (case load_xml path ''Tags.xml'' w of
        (Inl e, w) \<Rightarrow> (Raised e, w)
      | (Inr tags_df, w) \<Rightarrow>
     (case PostsTags posts_df tags_df of
        Inl e \<Rightarrow> (Raised e, w)
      | Inr posts_tags_df \<Rightarrow>
     (let w = write_parquet path posts_df ''posts'' w;
          w = write_parquet path tags_df ''tags'' w;
          w = write_parquet path posts_tags_df ''posts_tags'' w;
          (c1, w) = verify ''Posts Check'' (Posts_check run posts_df) w;
          (c2, w) = verify ''Tags Check'' (Tags_check run tags_df) w;
          (c3, w) = verify ''Posts Tags Check'' (PostsTags_check run posts_tags_df) w;
          checks = union_df (union_df c1 c2) c3;
          url = path @ os_sep @ ''warehouse.db'';
          w = Database url w
      in (case to_sql accepts url checks ''check_results'' replace_mode w of
            Inl e \<Rightarrow> (Raised e, w)
          | Inr w \<Rightarrow>
         (case resolve checks ''constraint_status'' of
            Inl e \<Rightarrow> (Raised (KeyError ''constraint_status''), w)
          | Inr status \<Rightarrow>
         (let failed = filter (\<lambda>r. cell r status \<noteq> Some (StringV ''Success'')) (rows checks)
          in if length failed > 0
             then (SystemExit failure_message, stop w)
             else
               (let w = create url Posts_create w;
                    w = create url Tags_create w;
                    w = create url PostsTags_create w
                in (case to_sql accepts url posts_df ''posts'' append_mode w of
                      Inl e \<Rightarrow> (Raised e, w)
                    | Inr w \<Rightarrow>
                   (case to_sql accepts url tags_df ''tags'' append_mode w of
                      Inl e \<Rightarrow> (Raised e, w)
                    | Inr w \<Rightarrow>
                   (case to_sql accepts url posts_tags_df ''posts_tags'' append_mode w of
                      Inl e \<Rightarrow> (Raised e, w)
                    | Inr w \<Rightarrow>
                       (let w = stop w;
                            w = log_event (Print ''Data Loaded Successfully!'') w
                        in (Returned, w)))))))))))))"

section \<open>The constraint validation engine\<close>

text \<open>
  Modelled from the spec: the Constraint Validation Engine, that is pydeequ's
  \<open>VerificationSuite\<close> and its constraint kinds, which the repository calls and does not
  contain. Section 4.3 of the specification gives the meaning of each kind: a predicate
  over the row count; no duplicate non-null values; no null values; every non-null value
  at least 0; the fraction of non-null values over all rows satisfying a predicate, with
  a message attached on failure; every non-null value among the allowed literals. One
  result is produced per constraint, in order, whatever the others gave.
  Where the specification is silent this model decides as follows: a constraint on a column
  that the table does not have fails; the fraction is a rational number and does not exist
  for a table without rows, where the constraint fails; text is never negative; a value is
  compared with the allowed literals by its text.
\<close>

definition column_values :: "dataframe \<Rightarrow> string \<Rightarrow> cell list option" where
  "column_values df c =
     (case resolve df c of Inl e \<Rightarrow> None | Inr i \<Rightarrow> Some (map (\<lambda>r. cell r i) (rows df)))"

definition non_null :: "cell list \<Rightarrow> cell list" where
  "non_null cs = filter (\<lambda>x. x \<noteq> None) cs"

definition completeness :: "cell list \<Rightarrow> rat option" where
  "completeness cs =
     (if cs = [] then None
      else Some (of_nat (length (non_null cs)) / of_nat (length cs)))"

fun non_negative :: "cell \<Rightarrow> bool" where
  "non_negative None = True"
| "non_negative (Some (LongV i)) = (0 \<le> i)"
| "non_negative (Some (StringV s)) = True"

fun allowed_in :: "string list \<Rightarrow> cell \<Rightarrow> bool" where
  "allowed_in allowed None = True"
| "allowed_in allowed (Some v) = (cast_string v \<in> set allowed)"

text \<open>
  Modelled from the spec: whether a table meets a constraint, kind by kind as section 4.3
  words it (pydeequ evaluates the constraints; the repository only declares them).
\<close>

fun satisfied :: "constraint \<Rightarrow> dataframe \<Rightarrow> bool" where
  "satisfied (hasSize assertion) df = assertion (int (length (rows df)))"
| "satisfied (isUnique c) df =
     (case column_values df c of None \<Rightarrow> False | Some cs \<Rightarrow> distinct (non_null cs))"
| "satisfied (isComplete c) df =
     (case column_values df c of None \<Rightarrow> False | Some cs \<Rightarrow> non_null cs = cs)"
| "satisfied (isNonNegative c) df =
     (case column_values df c of None \<Rightarrow> False | Some cs \<Rightarrow> list_all non_negative cs)"
| "satisfied (hasCompleteness c assertion hint) df =
     (case column_values df c of
        None \<Rightarrow> False
      | Some cs \<Rightarrow> (case completeness cs of None \<Rightarrow> False | Some q \<Rightarrow> assertion q))"
| "satisfied (isContainedIn c allowed) df =
     (case column_values df c of None \<Rightarrow> False | Some cs \<Rightarrow> list_all (allowed_in allowed) cs)"

text \<open>
  Modelled from the spec: the report row of one constraint, with its status \<open>Success\<close> or
  \<open>Failure\<close> and, on failure, its message, which for \<open>hasCompleteness\<close> is the message
  given with the constraint. The texts that name a constraint and the message of the other
  kinds are pydeequ's and are not fixed by the specification; short ones stand for them.
\<close>

fun constraint_text :: "constraint \<Rightarrow> string" where
  "constraint_text (hasSize assertion) = ''hasSize''"
| "constraint_text (isUnique c) = ''isUnique '' @ c"
| "constraint_text (isComplete c) = ''isComplete '' @ c"
| "constraint_text (isNonNegative c) = ''isNonNegative '' @ c"
| "constraint_text (hasCompleteness c assertion hint) = ''hasCompleteness '' @ c"
| "constraint_text (isContainedIn c allowed) = ''isContainedIn '' @ c"

fun failure_text :: "constraint \<Rightarrow> string" where
  "failure_text (hasCompleteness c assertion hint) = hint"
| "failure_text other = ''Value does not meet the constraint requirement!''"

definition evaluate :: "constraint \<Rightarrow> dataframe \<Rightarrow> constraint_result" where
  "evaluate c df =
     (if satisfied c df
      then \<lparr>constraint = constraint_text c, constraint_status = ''Success'',
            constraint_message = []\<rparr>
      else \<lparr>constraint = constraint_text c, constraint_status = ''Failure'',
            constraint_message = failure_text c\<rparr>)"

text \<open>
  Modelled from the spec: the verification run (pydeequ's \<open>VerificationSuite.run\<close>), which
  evaluates every constraint of the check, in order, and returns one result for each.
\<close>

fun level_text :: "CheckLevel \<Rightarrow> string" where
  "level_text Error = ''Error''"
| "level_text Warning = ''Warning''"

definition VerificationSuite_run :: engine where
  "VerificationSuite_run chk df =
     \<lparr>check_name = description chk,
      check_level = level_text (level chk),
      check_status =
        (if list_all (\<lambda>c. satisfied c df) (constraints chk) then ''Success''
         else level_text (level chk)),
      constraint_results = map (\<lambda>c. evaluate c df) (constraints chk)\<rparr>"

section \<open>Notions used in the statements\<close>

text \<open>
  The containment rule in the words of the specification: the \<open>Tags\<close> value is present, and
  the tag name wrapped in the two delimiters occurs in it as a run of consecutive characters.
\<close>

definition tags_field_has :: "cell \<Rightarrow> cell \<Rightarrow> bool" where
  "tags_field_has tags_value tag_name \<longleftrightarrow>
     (\<exists>s n pre suf. tags_value = Some s \<and> tag_name = Some n \<and>
        cast_string s = pre @ ''<'' @ cast_string n @ ''>'' @ suf)"

text \<open>The report that the gate of \<open>main\<close> reads: the three check results, unioned in order.\<close>

definition aggregated_report :: "engine \<Rightarrow> dataframe \<Rightarrow> dataframe \<Rightarrow> dataframe \<Rightarrow> dataframe" where
  "aggregated_report run posts_df tags_df posts_tags_df =
     union_df (union_df (Posts_check run posts_df) (Tags_check run tags_df))
       (PostsTags_check run posts_tags_df)"

definition not_success :: "dataframe \<Rightarrow> row \<Rightarrow> bool" where
  "not_success report r \<longleftrightarrow> col report ''constraint_status'' r \<noteq> Some (StringV ''Success'')"

text \<open>The effects of one run: what \<open>main\<close> added to the trace.\<close>

definition run_events :: "engine \<Rightarrow> acceptance \<Rightarrow> string \<Rightarrow> world \<Rightarrow> event list" where
  "run_events run accepts path w0 =
     drop (length (trace w0)) (trace (snd (main run accepts path w0)))"

text \<open>
  How many of the three entity frames the store takes when \<open>main\<close> writes them, in its
  order \<open>posts\<close>, \<open>tags\<close>, \<open>posts_tags\<close>, into the tables it has just created: the writes stop
  at the first frame that is refused.
\<close>

definition frames_taken :: "acceptance \<Rightarrow> dataframe \<Rightarrow> dataframe \<Rightarrow> dataframe \<Rightarrow> nat" where
  "frames_taken accepts posts_df tags_df posts_tags_df =
     (if \<not> accepts (fresh_table posts_definition) posts_df then 0
      else if \<not> accepts (fresh_table tags_definition) tags_df then 1
      else if \<not> accepts (fresh_table posts_tags_definition) posts_tags_df then 2
      else 3)"

fun writes_table :: "string \<Rightarrow> event \<Rightarrow> bool" where
  "writes_table tab (ToSql t mode) = (t = tab)"
| "writes_table tab ev = False"

fun is_execute :: "event \<Rightarrow> bool" where
  "is_execute (Execute s) = True"
| "is_execute ev = False"

fun is_verification :: "event \<Rightarrow> bool" where
  "is_verification (Verification name) = True"
| "is_verification ev = False"

fun raised :: "outcome \<Rightarrow> bool" where
  "raised (Raised e) = True"
| "raised out = False"

definition entity_tables :: "string list" where
  "entity_tables = [''posts'', ''tags'', ''posts_tags'']"

section \<open>Sample inputs\<close>

text \<open>
  Small tables on which the statements below are evaluated: four posts with the columns
  that the \<open>posts\<close> table requires, of which the first carries two tags, the second a tag
  whose name merely starts with \<open>a\<close>, the third no \<open>Tags\<close> attribute and the fourth an empty
  one; the two tags \<open>a\<close> and \<open>b\<close>; and the association derived from them.
\<close>

definition sample_posts :: dataframe where
  "sample_posts =
     \<lparr>columns = [''Id'', ''PostTypeId'', ''Score'', ''Body'', ''LastActivityDate'',
                 ''CommentCount'', ''ContentLicense'', ''Tags''],
      rows = [[Some (LongV 1), Some (LongV 1), Some (LongV 5), Some (StringV ''q''),
               Some (StringV ''2021-01-01''), Some (LongV 0), Some (StringV ''CC BY-SA 4.0''),
               Some (StringV ''<a><b>'')],
              [Some (LongV 2), Some (LongV 1), Some (LongV 0), Some (StringV ''r''),
               Some (StringV ''2021-01-02''), Some (LongV 1), Some (StringV ''CC BY-SA 4.0''),
               Some (StringV ''<ab>'')],
              [Some (LongV 3), Some (LongV 2), Some (LongV 3), Some (StringV ''s''),
               Some (StringV ''2021-01-03''), Some (LongV 0), Some (StringV ''CC BY-SA 4.0''),
               None],
              [Some (LongV 4), Some (LongV 1), Some (LongV 1), Some (StringV ''t''),
               Some (StringV ''2021-01-04''), Some (LongV 2), Some (StringV ''CC BY-SA 3.0''),
               Some (StringV [])]]\<rparr>"

definition sample_tags :: dataframe where
  "sample_tags =
     \<lparr>columns = [''Id'', ''TagName'', ''Count''],
      rows = [[Some (LongV 7), Some (StringV ''a''), Some (LongV 1)],
              [Some (LongV 8), Some (StringV ''b''), Some (LongV 1)]]\<rparr>"

definition sample_posts_tags :: dataframe where
  "sample_posts_tags =
     \<lparr>columns = [''PostId'', ''TagId'', ''TagName''],
      rows = [[Some (LongV 1), Some (LongV 7), Some (StringV ''a'')],
              [Some (LongV 1), Some (LongV 8), Some (StringV ''b'')]]\<rparr>"

text \<open>
  The same tags with one attribute more than the \<open>tags\<close> table of \<open>db.py\<close> declares. No
  constraint of the suites mentions the attribute.
\<close>

definition sample_tags_extra :: dataframe where
  "sample_tags_extra =
     \<lparr>columns = [''Id'', ''TagName'', ''Count'', ''IsRequired''],
      rows = [[Some (LongV 7), Some (StringV ''a''), Some (LongV 1), Some (StringV ''false'')],
              [Some (LongV 8), Some (StringV ''b''), Some (LongV 1), Some (StringV ''true'')]]\<rparr>"

text \<open>
  A table as spark-xml returns it, every attribute under its marker \<open>_\<close>; a posts table
  loaded by an earlier run; and a world that holds the posts file and a given tags file,
  an earlier snapshot of the posts and a database whose \<open>posts\<close> table an earlier run
  committed.
\<close>

definition as_read :: "dataframe \<Rightarrow> dataframe" where
  "as_read df = \<lparr>columns = map (\<lambda>c. CHR ''_'' # c) (columns df), rows = rows df\<rparr>"

definition earlier_posts :: dataframe where
  "earlier_posts =
     \<lparr>columns = [''Id'', ''Tags''], rows = [[Some (LongV 9), Some (StringV ''<b>'')]]\<rparr>"

definition world_with :: "dataframe \<Rightarrow> world" where
  "world_with tags_file =
     \<lparr>xml_files = [''uncommitted/Posts.xml'' \<mapsto> as_read sample_posts,
                   ''uncommitted/Tags.xml'' \<mapsto> tags_file],
      parquet_files = [''uncommitted/posts.parquet'' \<mapsto> earlier_posts],
      databases = (\<lambda>url. Map.empty)
        (''uncommitted/warehouse.db'' :=
           [''posts'' \<mapsto> \<lparr>definition_of = Some posts_definition, loads = [earlier_posts]\<rparr>]),
      trace = []\<rparr>"

definition sample_world :: world where
  "sample_world = world_with (as_read sample_tags)"

definition sample_world_extra :: world where
  "sample_world_extra = world_with (as_read sample_tags_extra)"

text \<open>
  An engine that reports one given status for every constraint of the check, as a stand-in
  for a verification run on data of realistic size (the suites ask for at least 20000 posts).
\<close>

definition uniform_engine :: "string \<Rightarrow> engine" where
  "uniform_engine st chk df =
     \<lparr>check_name = description chk, check_level = level_text (level chk), check_status = st,
      constraint_results =
        map (\<lambda>c. \<lparr>constraint = constraint_text c, constraint_status = st,
                    constraint_message = []\<rparr>) (constraints chk)\<rparr>"

text \<open>
  A check of ten constraints of which the sample posts meet seven, and tables of ten rows
  with a given number of non-null titles, with a check of their completeness.
\<close>

definition sample_check :: check where
  "sample_check =
     \<lparr>level = Warning, description = ''Sample Check'', constraints =
       [hasSize (\<lambda>x. x \<ge> 4),
        isUnique ''Id'',
        isComplete ''Id'',
        isNonNegative ''Id'',
        isComplete ''Tags'',
        hasCompleteness ''Tags'' (\<lambda>x. x \<ge> 5 / 10) ''It should be above 0.5!'',
        hasCompleteness ''Tags'' (\<lambda>x. x \<ge> 9 / 10) ''It should be above 0.9!'',
        isContainedIn ''Id'' [''1'', ''2'', ''3'', ''4''],
        hasSize (\<lambda>x. x \<ge> 20000),
        isUnique ''Tags'']\<rparr>"

definition ten_rows :: "nat \<Rightarrow> dataframe" where
  "ten_rows k =
     \<lparr>columns = [''Title''],
      rows = replicate k [Some (StringV ''t'')] @ replicate (10 - k) [None]\<rparr>"

definition completeness_check :: check where
  "completeness_check =
     \<lparr>level = Warning, description = ''Completeness Check'', constraints =
       [hasCompleteness ''Title'' (\<lambda>x. x \<ge> 5 / 10) ''It should be above 0.5!'']\<rparr>"

section \<open>Properties of the loader and of the association\<close>

lemma starts_with_iff: "starts_with s sub \<longleftrightarrow> (\<exists>suf. s = sub @ suf)"
  by (induction s sub rule: starts_with.induct) auto

lemma str_contains_iff: "str_contains s sub \<longleftrightarrow> (\<exists>pre suf. s = pre @ sub @ suf)"
proof (induction s)
  case Nil
  then show ?case by (auto simp: starts_with_iff)
next
  case (Cons d s)
  show ?case
  proof
    assume "str_contains (d # s) sub"
    then consider "starts_with (d # s) sub" | "str_contains s sub" by auto
    then show "\<exists>pre suf. d # s = pre @ sub @ suf"
    proof cases
      case 1
      then obtain suf where "d # s = sub @ suf" by (auto simp: starts_with_iff)
      then have "d # s = [] @ sub @ suf" by simp
      then show ?thesis by blast
    next
      case 2
      then obtain pre suf where "s = pre @ sub @ suf" using Cons.IH by blast
      then have "d # s = (d # pre) @ sub @ suf" by simp
      then show ?thesis by blast
    qed
  next
    assume "\<exists>pre suf. d # s = pre @ sub @ suf"
    then obtain pre suf where e: "d # s = pre @ sub @ suf" by blast
    show "str_contains (d # s) sub"
    proof (cases pre)
      case Nil
      with e have "starts_with (d # s) sub" by (auto simp: starts_with_iff)
      then show ?thesis by simp
    next
      case (Cons a pre')
      with e have "s = pre' @ sub @ suf" by simp
      then have "str_contains s sub" using Cons.IH by blast
      then show ?thesis by simp
    qed
  qed
qed

lemma join_condition_iff:
  "join_condition pT tN p t = Some True \<longleftrightarrow> tags_field_has (cell p pT) (cell t tN)"
proof (cases "cell p pT")
  case None
  then show ?thesis by (simp add: join_condition_def tags_field_has_def)
next
  case (Some s)
  show ?thesis
  proof (cases "cell t tN")
    case None
    with Some show ?thesis by (simp add: join_condition_def tags_field_has_def f_lit_def)
  next
    case (Some n)
    with \<open>cell p pT = Some s\<close> show ?thesis
      by (simp add: join_condition_def tags_field_has_def f_lit_def str_contains_iff)
  qed
qed

lemma comprehension_product:
  "[f p t. p \<leftarrow> xs, t \<leftarrow> ys, Q p t] =
     map (\<lambda>(p, t). f p t) (filter (\<lambda>(p, t). Q p t) (List.product xs ys))"
proof (induction xs)
  case Nil
  then show ?case by simp
next
  case (Cons x xs)
  have inner: "[f x t. t \<leftarrow> ys, Q x t] =
      map (\<lambda>(p, t). f p t) (filter (\<lambda>(p, t). Q p t) (map (Pair x) ys))"
    by (induction ys) auto
  show ?case using Cons.IH inner by simp
qed

lemma PostsTags_Inr:
  assumes "PostsTags posts_df tags_df = Inr a"
  shows "columns a = [''PostId'', ''TagId'', ''TagName''] \<and>
         rows a = map (\<lambda>(p, t). [col posts_df ''Id'' p, col tags_df ''Id'' t, col tags_df ''TagName'' t])
                    (filter (\<lambda>(p, t). tags_field_has (col posts_df ''Tags'' p) (col tags_df ''TagName'' t))
                       (List.product (rows posts_df) (rows tags_df)))"
proof -
  from assms obtain pT tN pI tI where
    r: "resolve posts_df ''Tags'' = Inr pT" "resolve tags_df ''TagName'' = Inr tN"
       "resolve posts_df ''Id'' = Inr pI" "resolve tags_df ''Id'' = Inr tI"
    by (auto simp: PostsTags_def split: sum.splits)
  with assms have a: "a = \<lparr>columns = [''PostId'', ''TagId'', ''TagName''],
          rows = [[cell p pI, cell t tI, cell t tN].
                    p \<leftarrow> rows posts_df, t \<leftarrow> rows tags_df,
                    join_condition pT tN p t = Some True]\<rparr>"
    by (simp add: PostsTags_def)
  have c: "\<And>r. col posts_df ''Tags'' r = cell r pT" "\<And>r. col tags_df ''TagName'' r = cell r tN"
      "\<And>r. col posts_df ''Id'' r = cell r pI" "\<And>r. col tags_df ''Id'' r = cell r tI"
    using r by (simp_all add: col_def)
  show ?thesis
    unfolding a c by (simp add: comprehension_product join_condition_iff)
qed


lemma resolve_rows_update [simp]: "resolve (df\<lparr>rows := rs\<rparr>) c = resolve df c"
  by (simp add: resolve_def)

lemma no_tag_in_short_text:
  assumes "v = None \<or> v = Some (StringV [])"
  shows "\<not> tags_field_has v n"
  using assms by (auto simp: tags_field_has_def)

text \<open>
  Claim C2 (association derivation). When the derivation succeeds, the association table
  holds, as a multiset, one row \<open>(p.Id, t.Id, t.TagName)\<close> for each pair of a post \<open>p\<close>
  and a tag \<open>t\<close> such that the \<open>Tags\<close> value of \<open>p\<close> is present and contains
  \<open>'<' + t.TagName + '>'\<close> as a substring, and no other row. Removing a post whose
  \<open>Tags\<close> value is absent or empty leaves the table as it is. A tag named \<open>a\<close> gives no
  row for a post whose \<open>Tags\<close> value is \<open><ab>\<close>; a post with \<open><a><b>\<close> and the tags
  \<open>a\<close> and \<open>b\<close> give exactly two rows, one per tag.
\<close>

theorem association_derivation:
  assumes "PostsTags posts_df tags_df = Inr a"
  shows "mset (rows a) =
           image_mset (\<lambda>(p, t). [col posts_df ''Id'' p, col tags_df ''Id'' t, col tags_df ''TagName'' t])
             (filter_mset (\<lambda>(p, t). tags_field_has (col posts_df ''Tags'' p) (col tags_df ''TagName'' t))
                (mset (List.product (rows posts_df) (rows tags_df))))
       \<and> (\<forall>xs p ys. rows posts_df = xs @ p # ys \<and>
             (col posts_df ''Tags'' p = None \<or> col posts_df ''Tags'' p = Some (StringV [])) \<longrightarrow>
             PostsTags (posts_df\<lparr>rows := xs @ ys\<rparr>) tags_df = Inr a)
       \<and> PostsTags \<lparr>columns = [''Id'', ''Tags''], rows = [[i, Some (StringV ''<ab>'')]]\<rparr>
            \<lparr>columns = [''Id'', ''TagName''], rows = [[j, Some (StringV ''a'')]]\<rparr>
          = Inr \<lparr>columns = [''PostId'', ''TagId'', ''TagName''], rows = []\<rparr>
       \<and> PostsTags \<lparr>columns = [''Id'', ''Tags''], rows = [[i, Some (StringV ''<a><b>'')]]\<rparr>
            \<lparr>columns = [''Id'', ''TagName''],
             rows = [[j, Some (StringV ''a'')], [k, Some (StringV ''b'')]]\<rparr>
          = Inr \<lparr>columns = [''PostId'', ''TagId'', ''TagName''],
                 rows = [[i, j, Some (StringV ''a'')], [i, k, Some (StringV ''b'')]]\<rparr>"
proof (intro conjI allI impI)
  show "mset (rows a) =
           image_mset (\<lambda>(p, t). [col posts_df ''Id'' p, col tags_df ''Id'' t, col tags_df ''TagName'' t])
             (filter_mset (\<lambda>(p, t). tags_field_has (col posts_df ''Tags'' p) (col tags_df ''TagName'' t))
                (mset (List.product (rows posts_df) (rows tags_df))))"
    using PostsTags_Inr [OF assms] by (simp flip: mset_filter mset_map)
next
  fix xs p ys
  assume h: "rows posts_df = xs @ p # ys \<and>
     (col posts_df ''Tags'' p = None \<or> col posts_df ''Tags'' p = Some (StringV []))"
  from assms obtain pT tN pI tI where
    r: "resolve posts_df ''Tags'' = Inr pT" "resolve tags_df ''TagName'' = Inr tN"
       "resolve posts_df ''Id'' = Inr pI" "resolve tags_df ''Id'' = Inr tI"
    by (auto simp: PostsTags_def split: sum.splits)
  from h r have "\<not> tags_field_has (cell p pT) n" for n
    using no_tag_in_short_text [of "cell p pT" n] by (simp add: col_def)
  then have drop: "[[cell p pI, cell t tI, cell t tN]. t \<leftarrow> rows tags_df,
      join_condition pT tN p t = Some True] = []"
    by (induction "rows tags_df") (auto simp: join_condition_iff)
  have "PostsTags (posts_df\<lparr>rows := xs @ ys\<rparr>) tags_df = PostsTags posts_df tags_df"
    using h r drop by (simp add: PostsTags_def)
  then show "PostsTags (posts_df\<lparr>rows := xs @ ys\<rparr>) tags_df = Inr a"
    using assms by simp
next
  show "PostsTags \<lparr>columns = [''Id'', ''Tags''], rows = [[i, Some (StringV ''<ab>'')]]\<rparr>
            \<lparr>columns = [''Id'', ''TagName''], rows = [[j, Some (StringV ''a'')]]\<rparr>
          = Inr \<lparr>columns = [''PostId'', ''TagId'', ''TagName''], rows = []\<rparr>"
    by (simp add: PostsTags_def resolve_def cell_def join_condition_def f_lit_def)
next
  show "PostsTags \<lparr>columns = [''Id'', ''Tags''], rows = [[i, Some (StringV ''<a><b>'')]]\<rparr>
            \<lparr>columns = [''Id'', ''TagName''],
             rows = [[j, Some (StringV ''a'')], [k, Some (StringV ''b'')]]\<rparr>
          = Inr \<lparr>columns = [''PostId'', ''TagId'', ''TagName''],
                 rows = [[i, j, Some (StringV ''a'')], [i, k, Some (StringV ''b'')]]\<rparr>"
    by (simp add: PostsTags_def resolve_def cell_def join_condition_def f_lit_def)
qed


text \<open>
  The statement of C2 at the sample tables, where the derivation succeeds.
\<close>

theorem association_derivation_witness:
  "PostsTags sample_posts sample_tags = Inr sample_posts_tags \<and>
   mset (rows sample_posts_tags) =
     image_mset (\<lambda>(p, t). [col sample_posts ''Id'' p, col sample_tags ''Id'' t,
                            col sample_tags ''TagName'' t])
       (filter_mset (\<lambda>(p, t). tags_field_has (col sample_posts ''Tags'' p)
                                (col sample_tags ''TagName'' t))
          (mset (List.product (rows sample_posts) (rows sample_tags))))"
proof -
  have h: "PostsTags sample_posts sample_tags = Inr sample_posts_tags"
    by (simp add: PostsTags_def sample_posts_def sample_tags_def sample_posts_tags_def
        resolve_def cell_def join_condition_def f_lit_def)
  from association_derivation [OF h] h show ?thesis by blast
qed

lemma association_columns:
  assumes "PostsTags posts_df tags_df = Inr a"
  shows "col a ''PostId'' r = cell r 0" "col a ''TagId'' r = cell r 1"
    "col a ''TagName'' r = cell r 2"
proof -
  have "columns a = [''PostId'', ''TagId'', ''TagName'']"
    using PostsTags_Inr [OF assms] by simp
  then show "col a ''PostId'' r = cell r 0" "col a ''TagId'' r = cell r 1"
    "col a ''TagName'' r = cell r 2"
    by (simp_all add: col_def resolve_def numeral_2_eq_2)
qed

lemma product_map:
  "map (\<lambda>(p, t). (f p, g t)) (List.product xs ys) = List.product (map f xs) (map g ys)"
  by (induction xs) (simp_all add: comp_def)

text \<open>
  Claim C5 (association uniqueness). When the \<open>Id\<close> values of the posts are pairwise
  different and so are those of the tags, no pair \<open>(PostId, TagId)\<close> occurs twice in the
  derived association table.
\<close>

theorem association_pairs_distinct:
  assumes "PostsTags posts_df tags_df = Inr a"
    and "distinct (map (col posts_df ''Id'') (rows posts_df))"
    and "distinct (map (col tags_df ''Id'') (rows tags_df))"
  shows "distinct (map (\<lambda>r. (col a ''PostId'' r, col a ''TagId'' r)) (rows a))"
proof -
  let ?Q = "\<lambda>(p, t). tags_field_has (col posts_df ''Tags'' p) (col tags_df ''TagName'' t)"
  let ?ids = "\<lambda>(p, t). (col posts_df ''Id'' p, col tags_df ''Id'' t)"
  let ?prod = "List.product (rows posts_df) (rows tags_df)"
  have rows_a: "rows a =
      map (\<lambda>(p, t). [col posts_df ''Id'' p, col tags_df ''Id'' t, col tags_df ''TagName'' t])
        (filter ?Q ?prod)"
    using PostsTags_Inr [OF assms(1)] by simp
  have "map (\<lambda>r. (col a ''PostId'' r, col a ''TagId'' r)) (rows a) = map ?ids (filter ?Q ?prod)"
    unfolding rows_a by (auto simp: association_columns [OF assms(1)] cell_def)
  moreover have "distinct (map ?ids ?prod)"
    unfolding product_map using assms(2,3) by (simp add: distinct_product)
  then have "distinct (map ?ids (filter ?Q ?prod))"
    by (rule distinct_map_filter)
  ultimately show ?thesis by simp
qed

text \<open>
  The statement of C5 at the sample tables, whose \<open>Id\<close> columns have no duplicates.
\<close>

theorem association_pairs_distinct_witness:
  "PostsTags sample_posts sample_tags = Inr sample_posts_tags \<and>
   distinct (map (col sample_posts ''Id'') (rows sample_posts)) \<and>
   distinct (map (col sample_tags ''Id'') (rows sample_tags)) \<and>
   distinct (map (\<lambda>r. (col sample_posts_tags ''PostId'' r, col sample_posts_tags ''TagId'' r))
     (rows sample_posts_tags))"
proof -
  have h: "PostsTags sample_posts sample_tags = Inr sample_posts_tags"
    by (simp add: PostsTags_def sample_posts_def sample_tags_def sample_posts_tags_def
        resolve_def cell_def join_condition_def f_lit_def)
  have p: "distinct (map (col sample_posts ''Id'') (rows sample_posts))"
    by (simp add: sample_posts_def col_def resolve_def cell_def)
  have t: "distinct (map (col sample_tags ''Id'') (rows sample_tags))"
    by (simp add: sample_tags_def col_def resolve_def cell_def)
  from association_pairs_distinct [OF h p t] h p t show ?thesis by blast
qed

text \<open>
  Claim C6 (referential integrity). In every row of the derived association table,
  \<open>PostId\<close> is the \<open>Id\<close> of some row of the posts table, \<open>TagId\<close> is the \<open>Id\<close> of some
  row of the tags table, and \<open>TagName\<close> is the \<open>TagName\<close> of that row of the tags table.
\<close>

theorem association_referential_integrity:
  assumes "PostsTags posts_df tags_df = Inr a"
  shows "\<forall>r \<in> set (rows a).
           (\<exists>p \<in> set (rows posts_df). col posts_df ''Id'' p = col a ''PostId'' r) \<and>
           (\<exists>t \<in> set (rows tags_df). col tags_df ''Id'' t = col a ''TagId'' r \<and>
                                       col tags_df ''TagName'' t = col a ''TagName'' r)"
proof
  fix r
  assume "r \<in> set (rows a)"
  then obtain p t where pt: "p \<in> set (rows posts_df)" "t \<in> set (rows tags_df)"
    and r: "r = [col posts_df ''Id'' p, col tags_df ''Id'' t, col tags_df ''TagName'' t]"
    using PostsTags_Inr [OF assms] by auto
  have "col a ''PostId'' r = col posts_df ''Id'' p" "col a ''TagId'' r = col tags_df ''Id'' t"
    "col a ''TagName'' r = col tags_df ''TagName'' t"
    unfolding r by (simp_all add: association_columns [OF assms] cell_def)
  with pt show "(\<exists>p \<in> set (rows posts_df). col posts_df ''Id'' p = col a ''PostId'' r) \<and>
           (\<exists>t \<in> set (rows tags_df). col tags_df ''Id'' t = col a ''TagId'' r \<and>
                                       col tags_df ''TagName'' t = col a ''TagName'' r)"
    by metis
qed

text \<open>
  The statement of C6 at the sample tables.
\<close>

theorem association_referential_integrity_witness:
  "PostsTags sample_posts sample_tags = Inr sample_posts_tags \<and>
   [Some (LongV 1), Some (LongV 8), Some (StringV ''b'')] \<in> set (rows sample_posts_tags) \<and>
   (\<exists>p. p \<in> set (rows sample_posts) \<and>
        col sample_posts ''Id'' p =
          col sample_posts_tags ''PostId'' [Some (LongV 1), Some (LongV 8), Some (StringV ''b'')]) \<and>
   (\<exists>t. t \<in> set (rows sample_tags) \<and>
        col sample_tags ''Id'' t =
          col sample_posts_tags ''TagId'' [Some (LongV 1), Some (LongV 8), Some (StringV ''b'')] \<and>
        col sample_tags ''TagName'' t =
          col sample_posts_tags ''TagName'' [Some (LongV 1), Some (LongV 8), Some (StringV ''b'')])"
proof -
  have h: "PostsTags sample_posts sample_tags = Inr sample_posts_tags"
    by (simp add: PostsTags_def sample_posts_def sample_tags_def sample_posts_tags_def
        resolve_def cell_def join_condition_def f_lit_def)
  have r: "[Some (LongV 1), Some (LongV 8), Some (StringV ''b'')] \<in> set (rows sample_posts_tags)"
    by (simp add: sample_posts_tags_def)
  from association_referential_integrity [OF h] r h show ?thesis by blast
qed

text \<open>
  Claim C9 (unconditional prefix stripping). \<open>parse_xml\<close> keeps the number and order of
  the columns and the rows, and every column name loses its first character whatever
  that character is: a name \<open>c # name\<close> becomes \<open>name\<close> for every \<open>c\<close>, so \<open>_Id\<close>
  becomes \<open>Id\<close> and \<open>Tags\<close>, which has no marker, becomes \<open>ags\<close>. An empty name stays
  empty.
\<close>

theorem prefix_stripping_unconditional:
  "length (columns (parse_xml df)) = length (columns df) \<and>
   (\<forall>i < length (columns df). \<forall>c name.
      columns df ! i = c # name \<longrightarrow> columns (parse_xml df) ! i = name) \<and>
   (\<forall>i < length (columns df). columns df ! i = [] \<longrightarrow> columns (parse_xml df) ! i = []) \<and>
   rows (parse_xml df) = rows df \<and>
   columns (parse_xml \<lparr>columns = [''_Id'', ''Tags''], rows = rs\<rparr>) = [''Id'', ''ags'']"
  by (simp add: parse_xml_def toDF_def new_column_names_def)

text \<open>
  The statement of C9 at a table whose second column has no marker.
\<close>

theorem prefix_stripping_unconditional_witness:
  "(1::nat) < length (columns \<lparr>columns = [''_Id'', ''Tags''], rows = []\<rparr>) \<and>
   columns \<lparr>columns = [''_Id'', ''Tags''], rows = []\<rparr> ! 1 = CHR ''T'' # ''ags'' \<and>
   columns (parse_xml \<lparr>columns = [''_Id'', ''Tags''], rows = []\<rparr>) ! 1 = ''ags''"
proof -
  let ?df = "\<lparr>columns = [''_Id'', ''Tags''], rows = []\<rparr>"
  have h: "(1::nat) < length (columns ?df)" by simp
  have e: "columns ?df ! 1 = CHR ''T'' # ''ags''" by simp
  from prefix_stripping_unconditional [of ?df] h e
  have "columns (parse_xml ?df) ! 1 = ''ags''" by blast
  with h e show ?thesis by blast
qed

section \<open>Properties of the run\<close>

lemmas sqlite_defs = sqlite_accepts_def fresh_table_def table_columns_def frame_column_def
  frame_tuples_def no_clash_def col_def resolve_def cell_def

lemma accepts_sample:
  "sqlite_accepts (fresh_table posts_definition) sample_posts"
  "sqlite_accepts (fresh_table tags_definition) sample_tags"
  "sqlite_accepts (fresh_table posts_tags_definition) sample_posts_tags"
  "\<not> sqlite_accepts (fresh_table tags_definition) sample_tags_extra"
  by (simp_all add: sqlite_defs posts_definition_def tags_definition_def posts_tags_definition_def
      sample_posts_def sample_tags_def sample_posts_tags_def sample_tags_extra_def)

lemma PostsTags_sample: "PostsTags sample_posts sample_tags = Inr sample_posts_tags"
  "PostsTags sample_posts sample_tags_extra = Inr sample_posts_tags"
  by (simp_all add: PostsTags_def sample_posts_def sample_tags_def sample_posts_tags_def sample_tags_extra_def
      resolve_def cell_def join_condition_def f_lit_def)

lemma parse_as_read: "parse_xml (as_read df) = df"
  by (simp add: parse_xml_def toDF_def new_column_names_def as_read_def comp_def)

lemma report_columns:
  "columns (aggregated_report run posts_df tags_df pt) = check_result_columns"
  by (simp add: aggregated_report_def union_df_def Posts_check_def check_result_to_df_def)

lemma resolve_status:
  "columns df = check_result_columns \<Longrightarrow> resolve df ''constraint_status'' = Inr 4"
  by (simp add: resolve_def check_result_columns_def upt_rec)

lemma not_success_cell:
  "columns df = check_result_columns \<Longrightarrow>
     not_success df r \<longleftrightarrow> cell r 4 \<noteq> Some (StringV ''Success'')"
  by (simp add: not_success_def col_def resolve_status)

lemmas run_defs = load_xml_def write_parquet_def verify_def Database_def to_sql_def
  execute_def create_def stop_def log_event_def

lemma main_abort:
  assumes "xml_files w0 (path @ os_sep @ ''Posts.xml'') = Some raw_posts"
    and "xml_files w0 (path @ os_sep @ ''Tags.xml'') = Some raw_tags"
    and "PostsTags (parse_xml raw_posts) (parse_xml raw_tags) = Inr pt"
    and "report = aggregated_report run (parse_xml raw_posts) (parse_xml raw_tags) pt"
    and "filter (not_success report) (rows report) \<noteq> []"
  shows "main run accepts path w0 =
    (SystemExit failure_message,
     w0\<lparr>parquet_files := (parquet_files w0)
            (path @ os_sep @ ''posts.parquet'' \<mapsto> parse_xml raw_posts,
             path @ os_sep @ ''tags.parquet'' \<mapsto> parse_xml raw_tags,
             path @ os_sep @ ''posts_tags.parquet'' \<mapsto> pt),
         databases := (databases w0)
            (path @ os_sep @ ''warehouse.db'' :=
               (databases w0 (path @ os_sep @ ''warehouse.db''))
                 (''check_results'' \<mapsto> \<lparr>definition_of = None, loads = [report]\<rparr>)),
         trace := trace w0 @
            [Load (path @ os_sep @ ''Posts.xml''), Load (path @ os_sep @ ''Tags.xml''),
             WriteParquet (path @ os_sep @ ''posts.parquet''),
             WriteParquet (path @ os_sep @ ''tags.parquet''),
             WriteParquet (path @ os_sep @ ''posts_tags.parquet''),
             Verification ''Posts Check'', Verification ''Tags Check'',
             Verification ''Posts Tags Check'',
             Connect (path @ os_sep @ ''warehouse.db''),
             ToSql ''check_results'' replace_mode, SparkStop]\<rparr>)"
proof -
  have c: "columns report = check_result_columns"
    using assms(4) by (simp add: report_columns)
  have f: "filter (\<lambda>r. cell r 4 \<noteq> Some (StringV ''Success'')) (rows report) \<noteq> []"
    using assms(5) by (simp add: not_success_cell [OF c] cong: filter_cong)
  have u: "union_df (union_df (Posts_check run (parse_xml raw_posts)) (Tags_check run (parse_xml raw_tags)))
      (PostsTags_check run pt) = report"
    using assms(4) by (simp add: aggregated_report_def)
  show ?thesis
    using assms(1,2,3) f
    by (simp add: main_def run_defs Let_def u resolve_status [OF c])
qed

lemma main_pass:
  assumes "xml_files w0 (path @ os_sep @ ''Posts.xml'') = Some raw_posts"
    and "xml_files w0 (path @ os_sep @ ''Tags.xml'') = Some raw_tags"
    and "PostsTags (parse_xml raw_posts) (parse_xml raw_tags) = Inr pt"
    and "report = aggregated_report run (parse_xml raw_posts) (parse_xml raw_tags) pt"
    and "filter (not_success report) (rows report) = []"
    and "n = frames_taken accepts (parse_xml raw_posts) (parse_xml raw_tags) pt"
  shows "fst (main run accepts path w0) =
           (if n = 3 then Returned else Raised (DatabaseError (entity_tables ! n)))"
    and "trace (snd (main run accepts path w0)) = trace w0 @
            [Load (path @ os_sep @ ''Posts.xml''), Load (path @ os_sep @ ''Tags.xml''),
             WriteParquet (path @ os_sep @ ''posts.parquet''),
             WriteParquet (path @ os_sep @ ''tags.parquet''),
             WriteParquet (path @ os_sep @ ''posts_tags.parquet''),
             Verification ''Posts Check'', Verification ''Tags Check'',
             Verification ''Posts Tags Check'',
             Connect (path @ os_sep @ ''warehouse.db''),
             ToSql ''check_results'' replace_mode,
             Execute (DROP_TABLE_IF_EXISTS ''posts''),
             Execute (CREATE_TABLE_IF_NOT_EXISTS ''posts'' posts_definition),
             Execute (DROP_TABLE_IF_EXISTS ''tags''),
             Execute (CREATE_TABLE_IF_NOT_EXISTS ''tags'' tags_definition),
             Execute (DROP_TABLE_IF_EXISTS ''posts_tags''),
             Execute (CREATE_TABLE_IF_NOT_EXISTS ''posts_tags'' posts_tags_definition)]
            @ take n [ToSql ''posts'' append_mode, ToSql ''tags'' append_mode,
                      ToSql ''posts_tags'' append_mode]
            @ (if n = 3 then [SparkStop, Print ''Data Loaded Successfully!''] else [])"
    and "parquet_files (snd (main run accepts path w0)) = (parquet_files w0)
            (path @ os_sep @ ''posts.parquet'' \<mapsto> parse_xml raw_posts,
             path @ os_sep @ ''tags.parquet'' \<mapsto> parse_xml raw_tags,
             path @ os_sep @ ''posts_tags.parquet'' \<mapsto> pt)"
    and "databases (snd (main run accepts path w0)) (path @ os_sep @ ''warehouse.db'') =
           (databases w0 (path @ os_sep @ ''warehouse.db''))
             (''check_results'' \<mapsto> \<lparr>definition_of = None, loads = [report]\<rparr>,
              ''posts'' \<mapsto> \<lparr>definition_of = Some posts_definition,
                             loads = (if 1 \<le> n then [parse_xml raw_posts] else [])\<rparr>,
              ''tags'' \<mapsto> \<lparr>definition_of = Some tags_definition,
                            loads = (if 2 \<le> n then [parse_xml raw_tags] else [])\<rparr>,
              ''posts_tags'' \<mapsto> \<lparr>definition_of = Some posts_tags_definition,
                                  loads = (if 3 \<le> n then [pt] else [])\<rparr>)"
proof -
  have c: "columns report = check_result_columns"
    using assms(4) by (simp add: report_columns)
  have f: "filter (\<lambda>r. cell r 4 \<noteq> Some (StringV ''Success'')) (rows report) = []"
    using assms(5) by (simp add: not_success_cell [OF c] cong: filter_cong)
  have u: "union_df (union_df (Posts_check run (parse_xml raw_posts)) (Tags_check run (parse_xml raw_tags)))
      (PostsTags_check run pt) = report"
    using assms(4) by (simp add: aggregated_report_def)
  note defs = main_def run_defs Let_def u resolve_status [OF c] Posts_create_def Tags_create_def
    PostsTags_create_def fresh_table_def entity_tables_def
  consider (p) "\<not> accepts (fresh_table posts_definition) (parse_xml raw_posts)"
    | (t) "accepts (fresh_table posts_definition) (parse_xml raw_posts)"
          "\<not> accepts (fresh_table tags_definition) (parse_xml raw_tags)"
    | (a) "accepts (fresh_table posts_definition) (parse_xml raw_posts)"
          "accepts (fresh_table tags_definition) (parse_xml raw_tags)"
          "\<not> accepts (fresh_table posts_tags_definition) pt"
    | (all) "accepts (fresh_table posts_definition) (parse_xml raw_posts)"
          "accepts (fresh_table tags_definition) (parse_xml raw_tags)"
          "accepts (fresh_table posts_tags_definition) pt"
    by blast
  then have "fst (main run accepts path w0) =
           (if n = 3 then Returned else Raised (DatabaseError (entity_tables ! n)))
    \<and> trace (snd (main run accepts path w0)) = trace w0 @
            [Load (path @ os_sep @ ''Posts.xml''), Load (path @ os_sep @ ''Tags.xml''),
             WriteParquet (path @ os_sep @ ''posts.parquet''),
             WriteParquet (path @ os_sep @ ''tags.parquet''),
             WriteParquet (path @ os_sep @ ''posts_tags.parquet''),
             Verification ''Posts Check'', Verification ''Tags Check'',
             Verification ''Posts Tags Check'',
             Connect (path @ os_sep @ ''warehouse.db''),
             ToSql ''check_results'' replace_mode,
             Execute (DROP_TABLE_IF_EXISTS ''posts''),
             Execute (CREATE_TABLE_IF_NOT_EXISTS ''posts'' posts_definition),
             Execute (DROP_TABLE_IF_EXISTS ''tags''),
             Execute (CREATE_TABLE_IF_NOT_EXISTS ''tags'' tags_definition),
             Execute (DROP_TABLE_IF_EXISTS ''posts_tags''),
             Execute (CREATE_TABLE_IF_NOT_EXISTS ''posts_tags'' posts_tags_definition)]
            @ take n [ToSql ''posts'' append_mode, ToSql ''tags'' append_mode,
                      ToSql ''posts_tags'' append_mode]
            @ (if n = 3 then [SparkStop, Print ''Data Loaded Successfully!''] else [])
    \<and> parquet_files (snd (main run accepts path w0)) = (parquet_files w0)
            (path @ os_sep @ ''posts.parquet'' \<mapsto> parse_xml raw_posts,
             path @ os_sep @ ''tags.parquet'' \<mapsto> parse_xml raw_tags,
             path @ os_sep @ ''posts_tags.parquet'' \<mapsto> pt)
    \<and> databases (snd (main run accepts path w0)) (path @ os_sep @ ''warehouse.db'') =
           (databases w0 (path @ os_sep @ ''warehouse.db''))
             (''check_results'' \<mapsto> \<lparr>definition_of = None, loads = [report]\<rparr>,
              ''posts'' \<mapsto> \<lparr>definition_of = Some posts_definition,
                             loads = (if 1 \<le> n then [parse_xml raw_posts] else [])\<rparr>,
              ''tags'' \<mapsto> \<lparr>definition_of = Some tags_definition,
                            loads = (if 2 \<le> n then [parse_xml raw_tags] else [])\<rparr>,
              ''posts_tags'' \<mapsto> \<lparr>definition_of = Some posts_tags_definition,
                                  loads = (if 3 \<le> n then [pt] else [])\<rparr>)"
  proof cases
    case p
    then have n: "n = 0" using assms(6) by (simp add: frames_taken_def)
    show ?thesis using assms(1,2,3) f p unfolding n
      by (simp add: defs fun_eq_iff)
  next
    case t
    then have n: "n = 1" using assms(6) by (simp add: frames_taken_def)
    show ?thesis using assms(1,2,3) f t unfolding n
      by (simp add: defs fun_eq_iff)
  next
    case a
    then have n: "n = 2" using assms(6) by (simp add: frames_taken_def)
    show ?thesis using assms(1,2,3) f a unfolding n
      by (simp add: defs fun_eq_iff)
  next
    case all
    then have n: "n = 3" using assms(6) by (simp add: frames_taken_def)
    show ?thesis using assms(1,2,3) f all unfolding n
      by (simp add: defs fun_eq_iff)
  qed
  then show "fst (main run accepts path w0) =
           (if n = 3 then Returned else Raised (DatabaseError (entity_tables ! n)))"
    and "trace (snd (main run accepts path w0)) = trace w0 @
            [Load (path @ os_sep @ ''Posts.xml''), Load (path @ os_sep @ ''Tags.xml''),
             WriteParquet (path @ os_sep @ ''posts.parquet''),
             WriteParquet (path @ os_sep @ ''tags.parquet''),
             WriteParquet (path @ os_sep @ ''posts_tags.parquet''),
             Verification ''Posts Check'', Verification ''Tags Check'',
             Verification ''Posts Tags Check'',
             Connect (path @ os_sep @ ''warehouse.db''),
             ToSql ''check_results'' replace_mode,
             Execute (DROP_TABLE_IF_EXISTS ''posts''),
             Execute (CREATE_TABLE_IF_NOT_EXISTS ''posts'' posts_definition),
             Execute (DROP_TABLE_IF_EXISTS ''tags''),
             Execute (CREATE_TABLE_IF_NOT_EXISTS ''tags'' tags_definition),
             Execute (DROP_TABLE_IF_EXISTS ''posts_tags''),
             Execute (CREATE_TABLE_IF_NOT_EXISTS ''posts_tags'' posts_tags_definition)]
            @ take n [ToSql ''posts'' append_mode, ToSql ''tags'' append_mode,
                      ToSql ''posts_tags'' append_mode]
            @ (if n = 3 then [SparkStop, Print ''Data Loaded Successfully!''] else [])"
    and "parquet_files (snd (main run accepts path w0)) = (parquet_files w0)
            (path @ os_sep @ ''posts.parquet'' \<mapsto> parse_xml raw_posts,
             path @ os_sep @ ''tags.parquet'' \<mapsto> parse_xml raw_tags,
             path @ os_sep @ ''posts_tags.parquet'' \<mapsto> pt)"
    and "databases (snd (main run accepts path w0)) (path @ os_sep @ ''warehouse.db'') =
           (databases w0 (path @ os_sep @ ''warehouse.db''))
             (''check_results'' \<mapsto> \<lparr>definition_of = None, loads = [report]\<rparr>,
              ''posts'' \<mapsto> \<lparr>definition_of = Some posts_definition,
                             loads = (if 1 \<le> n then [parse_xml raw_posts] else [])\<rparr>,
              ''tags'' \<mapsto> \<lparr>definition_of = Some tags_definition,
                            loads = (if 2 \<le> n then [parse_xml raw_tags] else [])\<rparr>,
              ''posts_tags'' \<mapsto> \<lparr>definition_of = Some posts_tags_definition,
                                  loads = (if 3 \<le> n then [pt] else [])\<rparr>)"
    by blast+
qed

lemma sample_files:
  "xml_files (world_with tags_file) (''uncommitted'' @ os_sep @ ''Posts.xml'') = Some (as_read sample_posts)"
  "xml_files (world_with tags_file) (''uncommitted'' @ os_sep @ ''Tags.xml'') = Some tags_file"
  by (simp_all add: world_with_def os_sep_def)

lemma sample_join:
  "PostsTags (parse_xml (as_read sample_posts)) (parse_xml (as_read sample_tags)) = Inr sample_posts_tags"
  "PostsTags (parse_xml (as_read sample_posts)) (parse_xml (as_read sample_tags_extra)) = Inr sample_posts_tags"
  by (simp_all add: parse_as_read PostsTags_sample)

lemma sample_fails:
  "filter (not_success (aggregated_report VerificationSuite_run (parse_xml (as_read sample_posts)) t pt))
     (rows (aggregated_report VerificationSuite_run (parse_xml (as_read sample_posts)) t pt)) \<noteq> []"
proof -
  let ?rep = "aggregated_report VerificationSuite_run sample_posts t pt"
  let ?r0 = "[Some (StringV ''Posts Check''), Some (StringV ''Warning''),
      Some (StringV ''Warning''), Some (StringV ''hasSize''), Some (StringV ''Failure''),
      Some (StringV ''Value does not meet the constraint requirement!'')]"
  have c: "columns ?rep = check_result_columns" by (simp add: report_columns)
  have "\<not> satisfied (hasSize (\<lambda>x. x \<ge> 20000)) sample_posts"
    by (simp add: sample_posts_def)
  then have "\<exists>rest. rows ?rep = ?r0 # rest"
    by (simp add: aggregated_report_def union_df_def Posts_check_def check_result_to_df_def
        VerificationSuite_run_def Posts_suite_def evaluate_def)
  then obtain rest where "rows ?rep = ?r0 # rest" by blast
  then have "filter (not_success ?rep) (rows ?rep) \<noteq> []"
    by (simp add: not_success_cell [OF c] cell_def)
  then show ?thesis by (simp add: parse_as_read)
qed

lemma uniform_success:
  "filter (not_success (aggregated_report (uniform_engine ''Success'') p t pt))
     (rows (aggregated_report (uniform_engine ''Success'') p t pt)) = []"
proof -
  let ?rep = "aggregated_report (uniform_engine ''Success'') p t pt"
  have c: "columns ?rep = check_result_columns" by (simp add: report_columns)
  show ?thesis
    unfolding not_success_cell [OF c]
    by (simp add: aggregated_report_def union_df_def Posts_check_def Tags_check_def
        PostsTags_check_def check_result_to_df_def uniform_engine_def cell_def)
qed

lemma sample_taken:
  "frames_taken sqlite_accepts (parse_xml (as_read sample_posts)) (parse_xml (as_read sample_tags))
     sample_posts_tags = 3"
  "frames_taken sqlite_accepts (parse_xml (as_read sample_posts)) (parse_xml (as_read sample_tags_extra))
     sample_posts_tags = 1"
  by (simp_all add: frames_taken_def parse_as_read accepts_sample)

lemma failure_message_names_check_results: "sublist ''check_results'' failure_message"
proof -
  have "failure_message =
      ''Data validation check has failed! See '' @ ''check_results'' @ '' table for more details.''"
    by (simp add: failure_message_def)
  then show ?thesis unfolding sublist_def by blast
qed

lemma run_events_abort:
  assumes "xml_files w0 (path @ os_sep @ ''Posts.xml'') = Some raw_posts"
    and "xml_files w0 (path @ os_sep @ ''Tags.xml'') = Some raw_tags"
    and "PostsTags (parse_xml raw_posts) (parse_xml raw_tags) = Inr pt"
    and "report = aggregated_report run (parse_xml raw_posts) (parse_xml raw_tags) pt"
    and "filter (not_success report) (rows report) \<noteq> []"
  shows "run_events run accepts path w0 =
            [Load (path @ os_sep @ ''Posts.xml''), Load (path @ os_sep @ ''Tags.xml''),
             WriteParquet (path @ os_sep @ ''posts.parquet''),
             WriteParquet (path @ os_sep @ ''tags.parquet''),
             WriteParquet (path @ os_sep @ ''posts_tags.parquet''),
             Verification ''Posts Check'', Verification ''Tags Check'',
             Verification ''Posts Tags Check'',
             Connect (path @ os_sep @ ''warehouse.db''),
             ToSql ''check_results'' replace_mode, SparkStop]"
  by (simp add: run_events_def main_abort [OF assms])

lemma run_events_pass:
  assumes "xml_files w0 (path @ os_sep @ ''Posts.xml'') = Some raw_posts"
    and "xml_files w0 (path @ os_sep @ ''Tags.xml'') = Some raw_tags"
    and "PostsTags (parse_xml raw_posts) (parse_xml raw_tags) = Inr pt"
    and "report = aggregated_report run (parse_xml raw_posts) (parse_xml raw_tags) pt"
    and "filter (not_success report) (rows report) = []"
    and "n = frames_taken accepts (parse_xml raw_posts) (parse_xml raw_tags) pt"
  shows "run_events run accepts path w0 =
            [Load (path @ os_sep @ ''Posts.xml''), Load (path @ os_sep @ ''Tags.xml''),
             WriteParquet (path @ os_sep @ ''posts.parquet''),
             WriteParquet (path @ os_sep @ ''tags.parquet''),
             WriteParquet (path @ os_sep @ ''posts_tags.parquet''),
             Verification ''Posts Check'', Verification ''Tags Check'',
             Verification ''Posts Tags Check'',
             Connect (path @ os_sep @ ''warehouse.db''),
             ToSql ''check_results'' replace_mode,
             Execute (DROP_TABLE_IF_EXISTS ''posts''),
             Execute (CREATE_TABLE_IF_NOT_EXISTS ''posts'' posts_definition),
             Execute (DROP_TABLE_IF_EXISTS ''tags''),
             Execute (CREATE_TABLE_IF_NOT_EXISTS ''tags'' tags_definition),
             Execute (DROP_TABLE_IF_EXISTS ''posts_tags''),
             Execute (CREATE_TABLE_IF_NOT_EXISTS ''posts_tags'' posts_tags_definition)]
            @ take n [ToSql ''posts'' append_mode, ToSql ''tags'' append_mode,
                      ToSql ''posts_tags'' append_mode]
            @ (if n = 3 then [SparkStop, Print ''Data Loaded Successfully!''] else [])"
  unfolding run_events_def main_pass(2) [OF assms] by simp

lemma frames_taken_cases:
  "frames_taken accepts p t pt = 0 \<or> frames_taken accepts p t pt = 1 \<or>
   frames_taken accepts p t pt = 2 \<or> frames_taken accepts p t pt = 3"
  by (simp add: frames_taken_def)

lemma entity_writes_of_run:
  "(map (\<lambda>tab. length (filter (writes_table tab) (run_events run accepts path w0))) entity_tables
      = [0, 0, 0] \<or>
    map (\<lambda>tab. length (filter (writes_table tab) (run_events run accepts path w0))) entity_tables
      = [1, 0, 0] \<or>
    map (\<lambda>tab. length (filter (writes_table tab) (run_events run accepts path w0))) entity_tables
      = [1, 1, 0] \<or>
    map (\<lambda>tab. length (filter (writes_table tab) (run_events run accepts path w0))) entity_tables
      = [1, 1, 1])
   \<and> (\<not> raised (fst (main run accepts path w0)) \<longrightarrow>
        map (\<lambda>tab. length (filter (writes_table tab) (run_events run accepts path w0))) entity_tables
          = [0, 0, 0] \<or>
        map (\<lambda>tab. length (filter (writes_table tab) (run_events run accepts path w0))) entity_tables
          = [1, 1, 1])"
proof (cases "xml_files w0 (path @ os_sep @ ''Posts.xml'')")
  case None
  then show ?thesis
    by (simp add: run_events_def main_def load_xml_def entity_tables_def)
next
  case posts: (Some raw_posts)
  show ?thesis
  proof (cases "xml_files w0 (path @ os_sep @ ''Tags.xml'')")
    case None
    with posts show ?thesis
      by (simp add: run_events_def main_def load_xml_def log_event_def entity_tables_def)
  next
    case tags: (Some raw_tags)
    show ?thesis
    proof (cases "PostsTags (parse_xml raw_posts) (parse_xml raw_tags)")
      case (Inl e)
      with posts tags show ?thesis
        by (simp add: run_events_def main_def load_xml_def log_event_def entity_tables_def)
    next
      case (Inr pt)
      let ?report = "aggregated_report run (parse_xml raw_posts) (parse_xml raw_tags) pt"
      show ?thesis
      proof (cases "filter (not_success ?report) (rows ?report) = []")
        case True
        note e = run_events_pass [OF posts tags Inr refl True refl, of accepts]
        note m = main_pass(1) [OF posts tags Inr refl True refl, of accepts]
        from frames_taken_cases [of accepts "parse_xml raw_posts" "parse_xml raw_tags" pt]
        show ?thesis
          unfolding e m by (auto simp: entity_tables_def)
      next
        case False
        show ?thesis
          by (simp add: run_events_abort [OF posts tags Inr refl False] entity_tables_def)
      qed
    qed
  qed
qed

text \<open>
  Claim C1 (commit gating) says that a report that is \<open>Success\<close> throughout has all four
  tables persisted. In the sample world whose tags file carries one attribute more than the
  \<open>tags\<close> table declares, with an engine that reports \<open>Success\<close> for every constraint,
  every row of the report is \<open>Success\<close>; \<open>check_results\<close> and \<open>posts\<close> are written, the
  store refuses the tags frame, the run ends with that exception, and neither \<open>tags\<close> nor
  \<open>posts_tags\<close> is written.
\<close>

theorem commit_gating_counterexample:
  "filter (not_success (aggregated_report (uniform_engine ''Success'') sample_posts
       sample_tags_extra sample_posts_tags))
     (rows (aggregated_report (uniform_engine ''Success'') sample_posts
       sample_tags_extra sample_posts_tags)) = [] \<and>
   fst (main (uniform_engine ''Success'') sqlite_accepts ''uncommitted'' sample_world_extra)
     = Raised (DatabaseError ''tags'') \<and>
   length (filter (writes_table ''check_results'')
     (run_events (uniform_engine ''Success'') sqlite_accepts ''uncommitted'' sample_world_extra)) = 1 \<and>
   length (filter (writes_table ''posts'')
     (run_events (uniform_engine ''Success'') sqlite_accepts ''uncommitted'' sample_world_extra)) = 1 \<and>
   length (filter (writes_table ''tags'')
     (run_events (uniform_engine ''Success'') sqlite_accepts ''uncommitted'' sample_world_extra)) = 0 \<and>
   length (filter (writes_table ''posts_tags'')
     (run_events (uniform_engine ''Success'') sqlite_accepts ''uncommitted'' sample_world_extra)) = 0"
proof -
  note a = sample_files [of "as_read sample_tags_extra"] sample_join(2) refl uniform_success
    sample_taken(2) [symmetric]
  have m: "fst (main (uniform_engine ''Success'') sqlite_accepts ''uncommitted'' sample_world_extra)
     = Raised (DatabaseError ''tags'')"
    unfolding sample_world_extra_def main_pass(1) [OF a]
    by (simp add: entity_tables_def)
  have e: "run_events (uniform_engine ''Success'') sqlite_accepts ''uncommitted'' sample_world_extra
     = [Load (''uncommitted'' @ os_sep @ ''Posts.xml''), Load (''uncommitted'' @ os_sep @ ''Tags.xml''),
             WriteParquet (''uncommitted'' @ os_sep @ ''posts.parquet''),
             WriteParquet (''uncommitted'' @ os_sep @ ''tags.parquet''),
             WriteParquet (''uncommitted'' @ os_sep @ ''posts_tags.parquet''),
             Verification ''Posts Check'', Verification ''Tags Check'',
             Verification ''Posts Tags Check'',
             Connect (''uncommitted'' @ os_sep @ ''warehouse.db''),
             ToSql ''check_results'' replace_mode,
             Execute (DROP_TABLE_IF_EXISTS ''posts''),
             Execute (CREATE_TABLE_IF_NOT_EXISTS ''posts'' posts_definition),
             Execute (DROP_TABLE_IF_EXISTS ''tags''),
             Execute (CREATE_TABLE_IF_NOT_EXISTS ''tags'' tags_definition),
             Execute (DROP_TABLE_IF_EXISTS ''posts_tags''),
             Execute (CREATE_TABLE_IF_NOT_EXISTS ''posts_tags'' posts_tags_definition),
             ToSql ''posts'' append_mode]"
    unfolding sample_world_extra_def run_events_pass [OF a] by simp
  show ?thesis
    unfolding e using m uniform_success by simp
qed

text \<open>
  Claim C1 as the code has it. For a run that loads both files and derives the association:
  when some row of the aggregated report has a \<open>constraint_status\<close> other than
  \<open>Success\<close>, the run ends in \<open>sys.exit\<close> with the failure message, hence with a
  non-zero status, the message names \<open>check_results\<close>, the report is stored in the table
  \<open>check_results\<close>, and the run writes \<open>check_results\<close> once and none of \<open>posts\<close>,
  \<open>tags\<close>, \<open>posts_tags\<close>. When every row is \<open>Success\<close>, \<open>check_results\<close> is written
  once and the entity frames are written in the order \<open>posts\<close>, \<open>tags\<close>, \<open>posts_tags\<close>
  until the store refuses one: the run then ends with that exception, the tables before
  the refused one are written once and hold their frame, and the refused one and those
  after it are not written and stay as just recreated. When every row is \<open>Success\<close> and
  the store accepts the three frames, the run returns, each of the four tables is written
  exactly once, and the store holds the report and the three loaded tables under the
  declared definitions.
\<close>

theorem commit_gating:
  assumes "xml_files w0 (path @ os_sep @ ''Posts.xml'') = Some raw_posts"
    and "xml_files w0 (path @ os_sep @ ''Tags.xml'') = Some raw_tags"
    and "PostsTags (parse_xml raw_posts) (parse_xml raw_tags) = Inr pt"
    and "report = aggregated_report run (parse_xml raw_posts) (parse_xml raw_tags) pt"
    and "url = path @ os_sep @ ''warehouse.db''"
    and "main run accepts path w0 = (out, w)"
    and "evs = run_events run accepts path w0"
    and "n = frames_taken accepts (parse_xml raw_posts) (parse_xml raw_tags) pt"
  shows "((\<exists>r \<in> set (rows report). not_success report r) \<longrightarrow>
            out = SystemExit failure_message \<and> exit_status out \<noteq> 0 \<and>
            sublist ''check_results'' failure_message \<and>
            databases w url ''check_results'' = Some \<lparr>definition_of = None, loads = [report]\<rparr> \<and>
            map (\<lambda>tab. length (filter (writes_table tab) evs))
              [''check_results'', ''posts'', ''tags'', ''posts_tags''] = [1, 0, 0, 0])
       \<and> ((\<forall>r \<in> set (rows report). \<not> not_success report r) \<longrightarrow>
            out = (if n = 3 then Returned else Raised (DatabaseError (entity_tables ! n))) \<and>
            databases w url = (databases w0 url)
              (''check_results'' \<mapsto> \<lparr>definition_of = None, loads = [report]\<rparr>,
               ''posts'' \<mapsto> \<lparr>definition_of = Some posts_definition,
                              loads = (if 1 \<le> n then [parse_xml raw_posts] else [])\<rparr>,
               ''tags'' \<mapsto> \<lparr>definition_of = Some tags_definition,
                             loads = (if 2 \<le> n then [parse_xml raw_tags] else [])\<rparr>,
               ''posts_tags'' \<mapsto> \<lparr>definition_of = Some posts_tags_definition,
                                   loads = (if 3 \<le> n then [pt] else [])\<rparr>) \<and>
            map (\<lambda>tab. length (filter (writes_table tab) evs))
              [''check_results'', ''posts'', ''tags'', ''posts_tags'']
              = [1, if 1 \<le> n then 1 else 0, if 2 \<le> n then 1 else 0, if 3 \<le> n then 1 else 0])
       \<and> ((\<forall>r \<in> set (rows report). \<not> not_success report r) \<and>
           accepts (fresh_table posts_definition) (parse_xml raw_posts) \<and>
           accepts (fresh_table tags_definition) (parse_xml raw_tags) \<and>
           accepts (fresh_table posts_tags_definition) pt \<longrightarrow>
            out = Returned \<and> exit_status out = 0 \<and>
            databases w url = (databases w0 url)
              (''check_results'' \<mapsto> \<lparr>definition_of = None, loads = [report]\<rparr>,
               ''posts'' \<mapsto> \<lparr>definition_of = Some posts_definition, loads = [parse_xml raw_posts]\<rparr>,
               ''tags'' \<mapsto> \<lparr>definition_of = Some tags_definition, loads = [parse_xml raw_tags]\<rparr>,
               ''posts_tags'' \<mapsto> \<lparr>definition_of = Some posts_tags_definition, loads = [pt]\<rparr>) \<and>
            map (\<lambda>tab. length (filter (writes_table tab) evs))
              [''check_results'', ''posts'', ''tags'', ''posts_tags''] = [1, 1, 1, 1])"
proof -
  have ow: "out = fst (main run accepts path w0)" "w = snd (main run accepts path w0)"
    using assms(6) by simp_all
  have fail: "out = SystemExit failure_message \<and> exit_status out \<noteq> 0 \<and>
            sublist ''check_results'' failure_message \<and>
            databases w url ''check_results'' = Some \<lparr>definition_of = None, loads = [report]\<rparr> \<and>
            map (\<lambda>tab. length (filter (writes_table tab) evs))
              [''check_results'', ''posts'', ''tags'', ''posts_tags''] = [1, 0, 0, 0]"
    if "\<exists>r \<in> set (rows report). not_success report r"
  proof -
    from that have f: "filter (not_success report) (rows report) \<noteq> []"
      by (simp add: filter_empty_conv)
    note m = main_abort [OF assms(1-4) f]
    note e = run_events_abort [OF assms(1-4) f]
    have 1: "out = SystemExit failure_message"
      unfolding ow m by simp
    then have 2: "exit_status out \<noteq> 0" by simp
    have 3: "databases w url ''check_results'' = Some \<lparr>definition_of = None, loads = [report]\<rparr>"
      unfolding ow m assms(5) by simp
    have 4: "map (\<lambda>tab. length (filter (writes_table tab) evs))
        [''check_results'', ''posts'', ''tags'', ''posts_tags''] = [1, 0, 0, 0]"
      unfolding assms(7) e by simp
    from 1 2 3 4 failure_message_names_check_results show ?thesis by blast
  qed
  have pass: "out = (if n = 3 then Returned else Raised (DatabaseError (entity_tables ! n))) \<and>
            databases w url = (databases w0 url)
              (''check_results'' \<mapsto> \<lparr>definition_of = None, loads = [report]\<rparr>,
               ''posts'' \<mapsto> \<lparr>definition_of = Some posts_definition,
                              loads = (if 1 \<le> n then [parse_xml raw_posts] else [])\<rparr>,
               ''tags'' \<mapsto> \<lparr>definition_of = Some tags_definition,
                             loads = (if 2 \<le> n then [parse_xml raw_tags] else [])\<rparr>,
               ''posts_tags'' \<mapsto> \<lparr>definition_of = Some posts_tags_definition,
                                   loads = (if 3 \<le> n then [pt] else [])\<rparr>) \<and>
            map (\<lambda>tab. length (filter (writes_table tab) evs))
              [''check_results'', ''posts'', ''tags'', ''posts_tags'']
              = [1, if 1 \<le> n then 1 else 0, if 2 \<le> n then 1 else 0, if 3 \<le> n then 1 else 0]"
    if "\<forall>r \<in> set (rows report). \<not> not_success report r"
  proof -
    from that have f: "filter (not_success report) (rows report) = []"
      by (simp add: filter_empty_conv)
    note m = main_pass [OF assms(1-4) f assms(8)]
    note e = run_events_pass [OF assms(1-4) f assms(8)]
    have 1: "out = (if n = 3 then Returned else Raised (DatabaseError (entity_tables ! n)))"
      unfolding ow by (rule m(1))
    have 2: "databases w url = (databases w0 url)
              (''check_results'' \<mapsto> \<lparr>definition_of = None, loads = [report]\<rparr>,
               ''posts'' \<mapsto> \<lparr>definition_of = Some posts_definition,
                              loads = (if 1 \<le> n then [parse_xml raw_posts] else [])\<rparr>,
               ''tags'' \<mapsto> \<lparr>definition_of = Some tags_definition,
                             loads = (if 2 \<le> n then [parse_xml raw_tags] else [])\<rparr>,
               ''posts_tags'' \<mapsto> \<lparr>definition_of = Some posts_tags_definition,
                                   loads = (if 3 \<le> n then [pt] else [])\<rparr>)"
      unfolding ow assms(5) by (rule m(4))
    have "n = 0 \<or> n = 1 \<or> n = 2 \<or> n = 3"
      unfolding assms(8) by (rule frames_taken_cases)
    then have 3: "map (\<lambda>tab. length (filter (writes_table tab) evs))
              [''check_results'', ''posts'', ''tags'', ''posts_tags'']
              = [1, if 1 \<le> n then 1 else 0, if 2 \<le> n then 1 else 0, if 3 \<le> n then 1 else 0]"
      unfolding assms(7) e by auto
    from 1 2 3 show ?thesis by blast
  qed
  have full: "out = Returned \<and> exit_status out = 0 \<and>
            databases w url = (databases w0 url)
              (''check_results'' \<mapsto> \<lparr>definition_of = None, loads = [report]\<rparr>,
               ''posts'' \<mapsto> \<lparr>definition_of = Some posts_definition, loads = [parse_xml raw_posts]\<rparr>,
               ''tags'' \<mapsto> \<lparr>definition_of = Some tags_definition, loads = [parse_xml raw_tags]\<rparr>,
               ''posts_tags'' \<mapsto> \<lparr>definition_of = Some posts_tags_definition, loads = [pt]\<rparr>) \<and>
            map (\<lambda>tab. length (filter (writes_table tab) evs))
              [''check_results'', ''posts'', ''tags'', ''posts_tags''] = [1, 1, 1, 1]"
    if "(\<forall>r \<in> set (rows report). \<not> not_success report r) \<and>
           accepts (fresh_table posts_definition) (parse_xml raw_posts) \<and>
           accepts (fresh_table tags_definition) (parse_xml raw_tags) \<and>
           accepts (fresh_table posts_tags_definition) pt"
  proof -
    from that have n: "n = 3"
      unfolding assms(8) by (simp add: frames_taken_def)
    from that have "\<forall>r \<in> set (rows report). \<not> not_success report r" by blast
    from pass [OF this] show ?thesis
      unfolding n by simp
  qed
  from fail pass full show ?thesis by blast
qed

text \<open>
  The preceding statement (claim C1) at the sample world: the small sample tables fail the
  size constraints, so that run aborts; with an engine that reports \<open>Success\<close> throughout
  the store accepts the three sample frames and the run commits.
\<close>

theorem commit_gating_witness:
  "xml_files sample_world ''uncommitted/Posts.xml'' = Some (as_read sample_posts) \<and>
   xml_files sample_world ''uncommitted/Tags.xml'' = Some (as_read sample_tags) \<and>
   PostsTags (parse_xml (as_read sample_posts)) (parse_xml (as_read sample_tags))
     = Inr sample_posts_tags \<and>
   fst (main VerificationSuite_run sqlite_accepts ''uncommitted'' sample_world)
     = SystemExit failure_message \<and>
   map (\<lambda>tab. length (filter (writes_table tab)
          (run_events VerificationSuite_run sqlite_accepts ''uncommitted'' sample_world)))
     [''check_results'', ''posts'', ''tags'', ''posts_tags''] = [1, 0, 0, 0] \<and>
   sqlite_accepts (fresh_table posts_definition) (parse_xml (as_read sample_posts)) \<and>
   sqlite_accepts (fresh_table tags_definition) (parse_xml (as_read sample_tags)) \<and>
   sqlite_accepts (fresh_table posts_tags_definition) sample_posts_tags \<and>
   fst (main (uniform_engine ''Success'') sqlite_accepts ''uncommitted'' sample_world) = Returned \<and>
   map (\<lambda>tab. length (filter (writes_table tab)
          (run_events (uniform_engine ''Success'') sqlite_accepts ''uncommitted'' sample_world)))
     [''check_results'', ''posts'', ''tags'', ''posts_tags''] = [1, 1, 1, 1]"
proof -
  have bad: "\<exists>r \<in> set (rows (aggregated_report VerificationSuite_run (parse_xml (as_read sample_posts))
       (parse_xml (as_read sample_tags)) sample_posts_tags)).
     not_success (aggregated_report VerificationSuite_run (parse_xml (as_read sample_posts))
       (parse_xml (as_read sample_tags)) sample_posts_tags) r"
    using sample_fails [of "parse_xml (as_read sample_tags)" sample_posts_tags]
    by (simp add: filter_empty_conv)
  have good: "\<forall>r \<in> set (rows (aggregated_report (uniform_engine ''Success'')
       (parse_xml (as_read sample_posts)) (parse_xml (as_read sample_tags)) sample_posts_tags)).
     \<not> not_success (aggregated_report (uniform_engine ''Success'')
       (parse_xml (as_read sample_posts)) (parse_xml (as_read sample_tags)) sample_posts_tags) r"
    using uniform_success [of "parse_xml (as_read sample_posts)" "parse_xml (as_read sample_tags)"
        sample_posts_tags]
    by (simp add: filter_empty_conv)
  have acc: "sqlite_accepts (fresh_table posts_definition) (parse_xml (as_read sample_posts))"
    "sqlite_accepts (fresh_table tags_definition) (parse_xml (as_read sample_tags))"
    "sqlite_accepts (fresh_table posts_tags_definition) sample_posts_tags"
    by (simp_all add: parse_as_read accepts_sample)
  have p: "main e sqlite_accepts ''uncommitted'' sample_world =
     (fst (main e sqlite_accepts ''uncommitted'' sample_world),
      snd (main e sqlite_accepts ''uncommitted'' sample_world))" for e
    by simp
  have files: "xml_files sample_world (''uncommitted'' @ os_sep @ ''Posts.xml'') = Some (as_read sample_posts)"
    "xml_files sample_world (''uncommitted'' @ os_sep @ ''Tags.xml'') = Some (as_read sample_tags)"
    unfolding sample_world_def by (rule sample_files)+
  note t = commit_gating [OF files sample_join(1) refl refl p refl refl]
  from t [of VerificationSuite_run] bad
  have a: "fst (main VerificationSuite_run sqlite_accepts ''uncommitted'' sample_world)
       = SystemExit failure_message"
    "map (\<lambda>tab. length (filter (writes_table tab)
          (run_events VerificationSuite_run sqlite_accepts ''uncommitted'' sample_world)))
     [''check_results'', ''posts'', ''tags'', ''posts_tags''] = [1, 0, 0, 0]"
    by blast+
  from t [of "uniform_engine ''Success''"] good acc
  have c: "fst (main (uniform_engine ''Success'') sqlite_accepts ''uncommitted'' sample_world) = Returned"
    "map (\<lambda>tab. length (filter (writes_table tab)
          (run_events (uniform_engine ''Success'') sqlite_accepts ''uncommitted'' sample_world)))
     [''check_results'', ''posts'', ''tags'', ''posts_tags''] = [1, 1, 1, 1]"
    by blast+
  have files': "xml_files sample_world ''uncommitted/Posts.xml'' = Some (as_read sample_posts)"
    "xml_files sample_world ''uncommitted/Tags.xml'' = Some (as_read sample_tags)"
    using files by (simp_all add: os_sep_def)
  from files' sample_join(1) a acc c show ?thesis by blast
qed

text \<open>
  Claim C7 (abort atomicity) says that no run writes some of the entity tables and not the
  others. In the sample world whose tags file carries one attribute more than the \<open>tags\<close>
  table declares, with every constraint reported \<open>Success\<close>, the run ends with the
  exception of the refused tags frame: \<open>posts\<close> holds the posts of this run, and \<open>tags\<close>
  and \<open>posts_tags\<close> are recreated and empty.
\<close>

theorem abort_atomicity_counterexample:
  "fst (main (uniform_engine ''Success'') sqlite_accepts ''uncommitted'' sample_world_extra)
     = Raised (DatabaseError ''tags'') \<and>
   databases (snd (main (uniform_engine ''Success'') sqlite_accepts ''uncommitted'' sample_world_extra))
       ''uncommitted/warehouse.db'' ''posts''
     = Some \<lparr>definition_of = Some posts_definition, loads = [sample_posts]\<rparr> \<and>
   databases (snd (main (uniform_engine ''Success'') sqlite_accepts ''uncommitted'' sample_world_extra))
       ''uncommitted/warehouse.db'' ''tags'' = Some (fresh_table tags_definition) \<and>
   databases (snd (main (uniform_engine ''Success'') sqlite_accepts ''uncommitted'' sample_world_extra))
       ''uncommitted/warehouse.db'' ''posts_tags'' = Some (fresh_table posts_tags_definition) \<and>
   filter (writes_table ''posts'')
     (run_events (uniform_engine ''Success'') sqlite_accepts ''uncommitted'' sample_world_extra)
     = [ToSql ''posts'' append_mode] \<and>
   filter (writes_table ''tags'')
     (run_events (uniform_engine ''Success'') sqlite_accepts ''uncommitted'' sample_world_extra) = [] \<and>
   filter (writes_table ''posts_tags'')
     (run_events (uniform_engine ''Success'') sqlite_accepts ''uncommitted'' sample_world_extra) = []"
proof -
  note a = sample_files [of "as_read sample_tags_extra"] sample_join(2) refl uniform_success
    sample_taken(2) [symmetric]
  have m: "fst (main (uniform_engine ''Success'') sqlite_accepts ''uncommitted'' sample_world_extra)
     = Raised (DatabaseError ''tags'')"
    unfolding sample_world_extra_def main_pass(1) [OF a]
    by (simp add: entity_tables_def)
  have d: "databases (snd (main (uniform_engine ''Success'') sqlite_accepts ''uncommitted'' sample_world_extra))
       ''uncommitted/warehouse.db'' ''posts''
     = Some \<lparr>definition_of = Some posts_definition, loads = [sample_posts]\<rparr>"
    "databases (snd (main (uniform_engine ''Success'') sqlite_accepts ''uncommitted'' sample_world_extra))
       ''uncommitted/warehouse.db'' ''tags'' = Some (fresh_table tags_definition)"
    "databases (snd (main (uniform_engine ''Success'') sqlite_accepts ''uncommitted'' sample_world_extra))
       ''uncommitted/warehouse.db'' ''posts_tags'' = Some (fresh_table posts_tags_definition)"
    using main_pass(4) [OF a]
    by (simp_all add: sample_world_extra_def os_sep_def parse_as_read fresh_table_def)
  have e: "filter (writes_table ''posts'')
     (run_events (uniform_engine ''Success'') sqlite_accepts ''uncommitted'' sample_world_extra)
     = [ToSql ''posts'' append_mode]"
    "filter (writes_table ''tags'')
     (run_events (uniform_engine ''Success'') sqlite_accepts ''uncommitted'' sample_world_extra) = []"
    "filter (writes_table ''posts_tags'')
     (run_events (uniform_engine ''Success'') sqlite_accepts ''uncommitted'' sample_world_extra) = []"
    unfolding sample_world_extra_def run_events_pass [OF a] by simp_all
  from m d e show ?thesis by blast
qed

text \<open>
  Claim C7 as the code has it. On a run whose aggregated report has a row that is not
  \<open>Success\<close>, the tables \<open>posts\<close>, \<open>tags\<close> and \<open>posts_tags\<close> of the store are what they
  were before the run, no statement is executed (nothing is dropped or created), no frame
  is written to any of the three, and the message of the exit names \<open>check_results\<close>.
  On every run whatsoever the entity tables are written in the order \<open>posts\<close>, \<open>tags\<close>,
  \<open>posts_tags\<close>, each at most once and none after one that was not written; and a run that
  does not end with an exception writes none of the three or each of them once. A run that
  writes some and not the others therefore ends with an exception.
\<close>

theorem abort_atomicity:
  "(xml_files w0 (path @ os_sep @ ''Posts.xml'') = Some raw_posts \<and>
    xml_files w0 (path @ os_sep @ ''Tags.xml'') = Some raw_tags \<and>
    PostsTags (parse_xml raw_posts) (parse_xml raw_tags) = Inr pt \<and>
    report = aggregated_report run (parse_xml raw_posts) (parse_xml raw_tags) pt \<and>
    (\<exists>r \<in> set (rows report). not_success report r) \<longrightarrow>
      fst (main run accepts path w0) = SystemExit failure_message \<and>
      sublist ''check_results'' failure_message \<and>
      (\<forall>tab \<in> set entity_tables.
         databases (snd (main run accepts path w0)) (path @ os_sep @ ''warehouse.db'') tab =
         databases w0 (path @ os_sep @ ''warehouse.db'') tab) \<and>
      filter is_execute (run_events run accepts path w0) = [] \<and>
      (\<forall>tab \<in> set entity_tables. filter (writes_table tab) (run_events run accepts path w0) = []))
   \<and> (map (\<lambda>tab. length (filter (writes_table tab) (run_events run accepts path w0))) entity_tables
          = [0, 0, 0] \<or>
        map (\<lambda>tab. length (filter (writes_table tab) (run_events run accepts path w0))) entity_tables
          = [1, 0, 0] \<or>
        map (\<lambda>tab. length (filter (writes_table tab) (run_events run accepts path w0))) entity_tables
          = [1, 1, 0] \<or>
        map (\<lambda>tab. length (filter (writes_table tab) (run_events run accepts path w0))) entity_tables
          = [1, 1, 1])
   \<and> (\<not> raised (fst (main run accepts path w0)) \<longrightarrow>
        map (\<lambda>tab. length (filter (writes_table tab) (run_events run accepts path w0))) entity_tables
          = [0, 0, 0] \<or>
        map (\<lambda>tab. length (filter (writes_table tab) (run_events run accepts path w0))) entity_tables
          = [1, 1, 1])"
proof -
  have abort: "fst (main run accepts path w0) = SystemExit failure_message \<and>
      sublist ''check_results'' failure_message \<and>
      (\<forall>tab \<in> set entity_tables.
         databases (snd (main run accepts path w0)) (path @ os_sep @ ''warehouse.db'') tab =
         databases w0 (path @ os_sep @ ''warehouse.db'') tab) \<and>
      filter is_execute (run_events run accepts path w0) = [] \<and>
      (\<forall>tab \<in> set entity_tables. filter (writes_table tab) (run_events run accepts path w0) = [])"
    if h: "xml_files w0 (path @ os_sep @ ''Posts.xml'') = Some raw_posts \<and>
      xml_files w0 (path @ os_sep @ ''Tags.xml'') = Some raw_tags \<and>
      PostsTags (parse_xml raw_posts) (parse_xml raw_tags) = Inr pt \<and>
      report = aggregated_report run (parse_xml raw_posts) (parse_xml raw_tags) pt \<and>
      (\<exists>r \<in> set (rows report). not_success report r)"
  proof -
    from h have "\<exists>r \<in> set (rows report). not_success report r"
      by blast
    then have f: "filter (not_success report) (rows report) \<noteq> []"
      by (simp add: filter_empty_conv)
    from h have a: "xml_files w0 (path @ os_sep @ ''Posts.xml'') = Some raw_posts"
      "xml_files w0 (path @ os_sep @ ''Tags.xml'') = Some raw_tags"
      "PostsTags (parse_xml raw_posts) (parse_xml raw_tags) = Inr pt"
      "report = aggregated_report run (parse_xml raw_posts) (parse_xml raw_tags) pt"
      by blast+
    note m = main_abort [OF a f]
    note e = run_events_abort [OF a f]
    have 1: "fst (main run accepts path w0) = SystemExit failure_message"
      unfolding m by simp
    have 2: "\<forall>tab \<in> set entity_tables.
         databases (snd (main run accepts path w0)) (path @ os_sep @ ''warehouse.db'') tab =
         databases w0 (path @ os_sep @ ''warehouse.db'') tab"
      unfolding m by (simp add: entity_tables_def)
    have 3: "filter is_execute (run_events run accepts path w0) = []"
      unfolding e by simp
    have 4: "\<forall>tab \<in> set entity_tables. filter (writes_table tab) (run_events run accepts path w0) = []"
      unfolding e by (simp add: entity_tables_def)
    from 1 2 3 4 failure_message_names_check_results show ?thesis by blast
  qed
  from abort entity_writes_of_run [of run accepts path w0] show ?thesis by blast
qed

text \<open>
  The preceding statement (claim C7) at the sample world: after the aborted run the \<open>posts\<close>
  table still holds what the earlier run committed, and \<open>tags\<close> and \<open>posts_tags\<close> still
  do not exist; the committing run ends without an exception and writes the three.
\<close>

theorem abort_atomicity_witness:
  "xml_files sample_world ''uncommitted/Posts.xml'' = Some (as_read sample_posts) \<and>
   xml_files sample_world ''uncommitted/Tags.xml'' = Some (as_read sample_tags) \<and>
   PostsTags (parse_xml (as_read sample_posts)) (parse_xml (as_read sample_tags))
     = Inr sample_posts_tags \<and>
   fst (main VerificationSuite_run sqlite_accepts ''uncommitted'' sample_world)
     = SystemExit failure_message \<and>
   databases (snd (main VerificationSuite_run sqlite_accepts ''uncommitted'' sample_world))
       ''uncommitted/warehouse.db'' ''posts''
     = Some \<lparr>definition_of = Some posts_definition, loads = [earlier_posts]\<rparr> \<and>
   databases (snd (main VerificationSuite_run sqlite_accepts ''uncommitted'' sample_world))
       ''uncommitted/warehouse.db'' ''tags'' = None \<and>
   databases (snd (main VerificationSuite_run sqlite_accepts ''uncommitted'' sample_world))
       ''uncommitted/warehouse.db'' ''posts_tags'' = None \<and>
   filter is_execute (run_events VerificationSuite_run sqlite_accepts ''uncommitted'' sample_world) = [] \<and>
   \<not> raised (fst (main (uniform_engine ''Success'') sqlite_accepts ''uncommitted'' sample_world)) \<and>
   map (\<lambda>tab. length (filter (writes_table tab)
          (run_events (uniform_engine ''Success'') sqlite_accepts ''uncommitted'' sample_world)))
     entity_tables = [1, 1, 1]"
proof -
  have bad: "\<exists>r \<in> set (rows (aggregated_report VerificationSuite_run (parse_xml (as_read sample_posts))
       (parse_xml (as_read sample_tags)) sample_posts_tags)).
     not_success (aggregated_report VerificationSuite_run (parse_xml (as_read sample_posts))
       (parse_xml (as_read sample_tags)) sample_posts_tags) r"
    using sample_fails [of "parse_xml (as_read sample_tags)" sample_posts_tags]
    by (simp add: filter_empty_conv)
  have files: "xml_files sample_world (''uncommitted'' @ os_sep @ ''Posts.xml'') = Some (as_read sample_posts)"
    "xml_files sample_world (''uncommitted'' @ os_sep @ ''Tags.xml'') = Some (as_read sample_tags)"
    unfolding sample_world_def by (rule sample_files)+
  have files': "xml_files sample_world ''uncommitted/Posts.xml'' = Some (as_read sample_posts)"
    "xml_files sample_world ''uncommitted/Tags.xml'' = Some (as_read sample_tags)"
    using files by (simp_all add: os_sep_def)
  note ac = files sample_join(1) refl uniform_success sample_taken(1) [symmetric]
  have commit: "\<not> raised (fst (main (uniform_engine ''Success'') sqlite_accepts ''uncommitted'' sample_world))"
    "map (\<lambda>tab. length (filter (writes_table tab)
          (run_events (uniform_engine ''Success'') sqlite_accepts ''uncommitted'' sample_world)))
     entity_tables = [1, 1, 1]"
    unfolding main_pass(1) [OF ac] run_events_pass [OF ac]
    by (simp_all add: entity_tables_def)
  have before: "databases sample_world ''uncommitted/warehouse.db'' ''posts''
       = Some \<lparr>definition_of = Some posts_definition, loads = [earlier_posts]\<rparr>"
    "databases sample_world ''uncommitted/warehouse.db'' ''tags'' = None"
    "databases sample_world ''uncommitted/warehouse.db'' ''posts_tags'' = None"
    by (simp_all add: sample_world_def world_with_def)
  have "fst (main VerificationSuite_run sqlite_accepts ''uncommitted'' sample_world)
        = SystemExit failure_message \<and>
      sublist ''check_results'' failure_message \<and>
      (\<forall>tab \<in> set entity_tables.
         databases (snd (main VerificationSuite_run sqlite_accepts ''uncommitted'' sample_world))
           (''uncommitted'' @ os_sep @ ''warehouse.db'') tab =
         databases sample_world (''uncommitted'' @ os_sep @ ''warehouse.db'') tab) \<and>
      filter is_execute (run_events VerificationSuite_run sqlite_accepts ''uncommitted'' sample_world) = [] \<and>
      (\<forall>tab \<in> set entity_tables.
         filter (writes_table tab)
           (run_events VerificationSuite_run sqlite_accepts ''uncommitted'' sample_world) = [])"
    using abort_atomicity [of sample_world "''uncommitted''" "as_read sample_posts"
        "as_read sample_tags" sample_posts_tags _ VerificationSuite_run sqlite_accepts]
      files sample_join(1) bad by blast
  then have "fst (main VerificationSuite_run sqlite_accepts ''uncommitted'' sample_world)
       = SystemExit failure_message"
    "filter is_execute (run_events VerificationSuite_run sqlite_accepts ''uncommitted'' sample_world) = []"
    "databases (snd (main VerificationSuite_run sqlite_accepts ''uncommitted'' sample_world))
       ''uncommitted/warehouse.db'' ''posts'' = databases sample_world ''uncommitted/warehouse.db'' ''posts''"
    "databases (snd (main VerificationSuite_run sqlite_accepts ''uncommitted'' sample_world))
       ''uncommitted/warehouse.db'' ''tags'' = databases sample_world ''uncommitted/warehouse.db'' ''tags''"
    "databases (snd (main VerificationSuite_run sqlite_accepts ''uncommitted'' sample_world))
       ''uncommitted/warehouse.db'' ''posts_tags''
       = databases sample_world ''uncommitted/warehouse.db'' ''posts_tags''"
    by (simp_all add: entity_tables_def os_sep_def)
  with files' sample_join(1) before commit show ?thesis by simp
qed

text \<open>
  Claim C8 (schema recreation timing) says that every run, also one that aborts, executes
  the statements that recreate the entity tables, at the start. The run on the sample world
  aborts and executes no statement at all: its effects are the two loads, the three
  snapshots, the three verifications, the connection, the write of \<open>check_results\<close> and
  the stop of the session; the table \<open>tags\<close> does not exist afterwards. The run
  with an engine that reports \<open>Success\<close> throughout commits, and none of its first ten
  effects, up to the write of \<open>check_results\<close>, is a statement.
\<close>

theorem schema_recreation_counterexample:
  "fst (main VerificationSuite_run sqlite_accepts ''uncommitted'' sample_world)
     = SystemExit failure_message \<and>
   run_events VerificationSuite_run sqlite_accepts ''uncommitted'' sample_world =
     [Load ''uncommitted/Posts.xml'', Load ''uncommitted/Tags.xml'',
      WriteParquet ''uncommitted/posts.parquet'', WriteParquet ''uncommitted/tags.parquet'',
      WriteParquet ''uncommitted/posts_tags.parquet'',
      Verification ''Posts Check'', Verification ''Tags Check'', Verification ''Posts Tags Check'',
      Connect ''uncommitted/warehouse.db'', ToSql ''check_results'' replace_mode, SparkStop] \<and>
   filter is_execute (run_events VerificationSuite_run sqlite_accepts ''uncommitted'' sample_world) = [] \<and>
   databases (snd (main VerificationSuite_run sqlite_accepts ''uncommitted'' sample_world))
       ''uncommitted/warehouse.db'' ''tags'' = None \<and>
   fst (main (uniform_engine ''Success'') sqlite_accepts ''uncommitted'' sample_world) = Returned \<and>
   take 10 (run_events (uniform_engine ''Success'') sqlite_accepts ''uncommitted'' sample_world) =
     [Load ''uncommitted/Posts.xml'', Load ''uncommitted/Tags.xml'',
      WriteParquet ''uncommitted/posts.parquet'', WriteParquet ''uncommitted/tags.parquet'',
      WriteParquet ''uncommitted/posts_tags.parquet'',
      Verification ''Posts Check'', Verification ''Tags Check'', Verification ''Posts Tags Check'',
      Connect ''uncommitted/warehouse.db'', ToSql ''check_results'' replace_mode]"
proof -
  note files = sample_files [of "as_read sample_tags"]
  note ac = files sample_join(1) refl uniform_success sample_taken(1) [symmetric]
  note ab = files sample_join(1) refl sample_fails
  note mc = main_pass [OF ac]
  note ec = run_events_pass [OF ac]
  have c1: "fst (main (uniform_engine ''Success'') sqlite_accepts ''uncommitted'' sample_world) = Returned"
    unfolding sample_world_def mc(1) by simp
  have c2: "take 10 (run_events (uniform_engine ''Success'') sqlite_accepts ''uncommitted'' sample_world) =
     [Load ''uncommitted/Posts.xml'', Load ''uncommitted/Tags.xml'',
      WriteParquet ''uncommitted/posts.parquet'', WriteParquet ''uncommitted/tags.parquet'',
      WriteParquet ''uncommitted/posts_tags.parquet'',
      Verification ''Posts Check'', Verification ''Tags Check'', Verification ''Posts Tags Check'',
      Connect ''uncommitted/warehouse.db'', ToSql ''check_results'' replace_mode]"
    unfolding sample_world_def ec by (simp add: os_sep_def)
  note m = main_abort [OF ab]
  note e = run_events_abort [OF ab]
  have "fst (main VerificationSuite_run sqlite_accepts ''uncommitted'' sample_world)
      = SystemExit failure_message"
    unfolding sample_world_def m by simp
  moreover have "run_events VerificationSuite_run sqlite_accepts ''uncommitted'' sample_world =
     [Load ''uncommitted/Posts.xml'', Load ''uncommitted/Tags.xml'',
      WriteParquet ''uncommitted/posts.parquet'', WriteParquet ''uncommitted/tags.parquet'',
      WriteParquet ''uncommitted/posts_tags.parquet'',
      Verification ''Posts Check'', Verification ''Tags Check'', Verification ''Posts Tags Check'',
      Connect ''uncommitted/warehouse.db'', ToSql ''check_results'' replace_mode, SparkStop]"
    unfolding sample_world_def e by (simp add: os_sep_def)
  moreover have "filter is_execute
      (run_events VerificationSuite_run sqlite_accepts ''uncommitted'' sample_world) = []"
    unfolding sample_world_def e by simp
  moreover have "databases (snd (main VerificationSuite_run sqlite_accepts ''uncommitted'' sample_world))
       ''uncommitted/warehouse.db'' ''tags'' = None"
    unfolding sample_world_def m by (simp add: os_sep_def world_with_def)
  ultimately show ?thesis using c1 c2 by blast
qed

text \<open>
  Claim C8 as the code has it. The statements that recreate the entity tables, for each of
  \<open>posts\<close>, \<open>tags\<close>, \<open>posts_tags\<close> a drop-if-exists followed by a create with the
  declared definition, are executed only on a run whose aggregated report is \<open>Success\<close>
  throughout, after the snapshots, the verifications and the write of \<open>check_results\<close>
  and immediately before the entity loads, of which as many follow as the store takes;
  when it takes the three, the session is stopped and the success message printed. A run
  whose report has a row that is not \<open>Success\<close> executes no statement.
\<close>

theorem schema_recreation_after_gate:
  assumes "xml_files w0 (path @ os_sep @ ''Posts.xml'') = Some raw_posts"
    and "xml_files w0 (path @ os_sep @ ''Tags.xml'') = Some raw_tags"
    and "PostsTags (parse_xml raw_posts) (parse_xml raw_tags) = Inr pt"
    and "report = aggregated_report run (parse_xml raw_posts) (parse_xml raw_tags) pt"
    and "n = frames_taken accepts (parse_xml raw_posts) (parse_xml raw_tags) pt"
  shows "((\<exists>r \<in> set (rows report). not_success report r) \<longrightarrow>
            filter is_execute (run_events run accepts path w0) = [])
       \<and> ((\<forall>r \<in> set (rows report). \<not> not_success report r) \<longrightarrow>
            run_events run accepts path w0 =
              [Load (path @ os_sep @ ''Posts.xml''), Load (path @ os_sep @ ''Tags.xml''),
               WriteParquet (path @ os_sep @ ''posts.parquet''),
               WriteParquet (path @ os_sep @ ''tags.parquet''),
               WriteParquet (path @ os_sep @ ''posts_tags.parquet''),
               Verification ''Posts Check'', Verification ''Tags Check'',
               Verification ''Posts Tags Check'',
               Connect (path @ os_sep @ ''warehouse.db''),
               ToSql ''check_results'' replace_mode,
               Execute (DROP_TABLE_IF_EXISTS ''posts''),
               Execute (CREATE_TABLE_IF_NOT_EXISTS ''posts'' posts_definition),
               Execute (DROP_TABLE_IF_EXISTS ''tags''),
               Execute (CREATE_TABLE_IF_NOT_EXISTS ''tags'' tags_definition),
               Execute (DROP_TABLE_IF_EXISTS ''posts_tags''),
               Execute (CREATE_TABLE_IF_NOT_EXISTS ''posts_tags'' posts_tags_definition)]
              @ take n [ToSql ''posts'' append_mode, ToSql ''tags'' append_mode,
                        ToSql ''posts_tags'' append_mode]
              @ (if n = 3 then [SparkStop, Print ''Data Loaded Successfully!''] else []))
       \<and> ((\<forall>r \<in> set (rows report). \<not> not_success report r) \<and> n = 3 \<longrightarrow>
            run_events run accepts path w0 =
              [Load (path @ os_sep @ ''Posts.xml''), Load (path @ os_sep @ ''Tags.xml''),
               WriteParquet (path @ os_sep @ ''posts.parquet''),
               WriteParquet (path @ os_sep @ ''tags.parquet''),
               WriteParquet (path @ os_sep @ ''posts_tags.parquet''),
               Verification ''Posts Check'', Verification ''Tags Check'',
               Verification ''Posts Tags Check'',
               Connect (path @ os_sep @ ''warehouse.db''),
               ToSql ''check_results'' replace_mode,
               Execute (DROP_TABLE_IF_EXISTS ''posts''),
               Execute (CREATE_TABLE_IF_NOT_EXISTS ''posts'' posts_definition),
               Execute (DROP_TABLE_IF_EXISTS ''tags''),
               Execute (CREATE_TABLE_IF_NOT_EXISTS ''tags'' tags_definition),
               Execute (DROP_TABLE_IF_EXISTS ''posts_tags''),
               Execute (CREATE_TABLE_IF_NOT_EXISTS ''posts_tags'' posts_tags_definition),
               ToSql ''posts'' append_mode, ToSql ''tags'' append_mode,
               ToSql ''posts_tags'' append_mode, SparkStop,
               Print ''Data Loaded Successfully!''])"
proof (intro conjI impI)
  assume "\<exists>r \<in> set (rows report). not_success report r"
  then have f: "filter (not_success report) (rows report) \<noteq> []"
    by (simp add: filter_empty_conv)
  show "filter is_execute (run_events run accepts path w0) = []"
    unfolding run_events_abort [OF assms(1-4) f] by simp
next
  assume "\<forall>r \<in> set (rows report). \<not> not_success report r"
  then have f: "filter (not_success report) (rows report) = []"
    by (simp add: filter_empty_conv)
  show "run_events run accepts path w0 =
              [Load (path @ os_sep @ ''Posts.xml''), Load (path @ os_sep @ ''Tags.xml''),
               WriteParquet (path @ os_sep @ ''posts.parquet''),
               WriteParquet (path @ os_sep @ ''tags.parquet''),
               WriteParquet (path @ os_sep @ ''posts_tags.parquet''),
               Verification ''Posts Check'', Verification ''Tags Check'',
               Verification ''Posts Tags Check'',
               Connect (path @ os_sep @ ''warehouse.db''),
               ToSql ''check_results'' replace_mode,
               Execute (DROP_TABLE_IF_EXISTS ''posts''),
               Execute (CREATE_TABLE_IF_NOT_EXISTS ''posts'' posts_definition),
               Execute (DROP_TABLE_IF_EXISTS ''tags''),
               Execute (CREATE_TABLE_IF_NOT_EXISTS ''tags'' tags_definition),
               Execute (DROP_TABLE_IF_EXISTS ''posts_tags''),
               Execute (CREATE_TABLE_IF_NOT_EXISTS ''posts_tags'' posts_tags_definition)]
              @ take n [ToSql ''posts'' append_mode, ToSql ''tags'' append_mode,
                        ToSql ''posts_tags'' append_mode]
              @ (if n = 3 then [SparkStop, Print ''Data Loaded Successfully!''] else [])"
    by (rule run_events_pass [OF assms(1-4) f assms(5)])
next
  assume h: "(\<forall>r \<in> set (rows report). \<not> not_success report r) \<and> n = 3"
  then have f: "filter (not_success report) (rows report) = []"
    by (simp add: filter_empty_conv)
  from h have n: "n = 3" by blast
  show "run_events run accepts path w0 =
              [Load (path @ os_sep @ ''Posts.xml''), Load (path @ os_sep @ ''Tags.xml''),
               WriteParquet (path @ os_sep @ ''posts.parquet''),
               WriteParquet (path @ os_sep @ ''tags.parquet''),
               WriteParquet (path @ os_sep @ ''posts_tags.parquet''),
               Verification ''Posts Check'', Verification ''Tags Check'',
               Verification ''Posts Tags Check'',
               Connect (path @ os_sep @ ''warehouse.db''),
               ToSql ''check_results'' replace_mode,
               Execute (DROP_TABLE_IF_EXISTS ''posts''),
               Execute (CREATE_TABLE_IF_NOT_EXISTS ''posts'' posts_definition),
               Execute (DROP_TABLE_IF_EXISTS ''tags''),
               Execute (CREATE_TABLE_IF_NOT_EXISTS ''tags'' tags_definition),
               Execute (DROP_TABLE_IF_EXISTS ''posts_tags''),
               Execute (CREATE_TABLE_IF_NOT_EXISTS ''posts_tags'' posts_tags_definition),
               ToSql ''posts'' append_mode, ToSql ''tags'' append_mode,
               ToSql ''posts_tags'' append_mode, SparkStop,
               Print ''Data Loaded Successfully!'']"
    unfolding run_events_pass [OF assms(1-4) f assms(5)] n by simp
qed

text \<open>
  The preceding statement (claim C8) at the sample world, for an aborting and for a committing run;
  in the committing run none of the first ten effects is a statement.
\<close>

theorem schema_recreation_after_gate_witness:
  "xml_files sample_world ''uncommitted/Posts.xml'' = Some (as_read sample_posts) \<and>
   xml_files sample_world ''uncommitted/Tags.xml'' = Some (as_read sample_tags) \<and>
   PostsTags (parse_xml (as_read sample_posts)) (parse_xml (as_read sample_tags))
     = Inr sample_posts_tags \<and>
   frames_taken sqlite_accepts (parse_xml (as_read sample_posts)) (parse_xml (as_read sample_tags))
     sample_posts_tags = 3 \<and>
   filter is_execute (run_events VerificationSuite_run sqlite_accepts ''uncommitted'' sample_world) = [] \<and>
   filter is_execute (run_events (uniform_engine ''Success'') sqlite_accepts ''uncommitted'' sample_world) =
     [Execute (DROP_TABLE_IF_EXISTS ''posts''),
      Execute (CREATE_TABLE_IF_NOT_EXISTS ''posts'' posts_definition),
      Execute (DROP_TABLE_IF_EXISTS ''tags''),
      Execute (CREATE_TABLE_IF_NOT_EXISTS ''tags'' tags_definition),
      Execute (DROP_TABLE_IF_EXISTS ''posts_tags''),
      Execute (CREATE_TABLE_IF_NOT_EXISTS ''posts_tags'' posts_tags_definition)] \<and>
   filter is_execute
     (take 10 (run_events (uniform_engine ''Success'') sqlite_accepts ''uncommitted'' sample_world)) = []"
proof -
  have bad: "\<exists>r \<in> set (rows (aggregated_report VerificationSuite_run (parse_xml (as_read sample_posts))
       (parse_xml (as_read sample_tags)) sample_posts_tags)).
     not_success (aggregated_report VerificationSuite_run (parse_xml (as_read sample_posts))
       (parse_xml (as_read sample_tags)) sample_posts_tags) r"
    using sample_fails [of "parse_xml (as_read sample_tags)" sample_posts_tags]
    by (simp add: filter_empty_conv)
  have good: "\<forall>r \<in> set (rows (aggregated_report (uniform_engine ''Success'')
       (parse_xml (as_read sample_posts)) (parse_xml (as_read sample_tags)) sample_posts_tags)).
     \<not> not_success (aggregated_report (uniform_engine ''Success'')
       (parse_xml (as_read sample_posts)) (parse_xml (as_read sample_tags)) sample_posts_tags) r"
    using uniform_success [of "parse_xml (as_read sample_posts)" "parse_xml (as_read sample_tags)"
        sample_posts_tags]
    by (simp add: filter_empty_conv)
  have files: "xml_files sample_world (''uncommitted'' @ os_sep @ ''Posts.xml'') = Some (as_read sample_posts)"
    "xml_files sample_world (''uncommitted'' @ os_sep @ ''Tags.xml'') = Some (as_read sample_tags)"
    unfolding sample_world_def by (rule sample_files)+
  have files': "xml_files sample_world ''uncommitted/Posts.xml'' = Some (as_read sample_posts)"
    "xml_files sample_world ''uncommitted/Tags.xml'' = Some (as_read sample_tags)"
    using files by (simp_all add: os_sep_def)
  note t = schema_recreation_after_gate [OF files sample_join(1) refl sample_taken(1) [symmetric]]
  from t [of VerificationSuite_run] bad
  have a: "filter is_execute
      (run_events VerificationSuite_run sqlite_accepts ''uncommitted'' sample_world) = []"
    by blast
  from t [of "uniform_engine ''Success''"] good
  have "run_events (uniform_engine ''Success'') sqlite_accepts ''uncommitted'' sample_world =
              [Load (''uncommitted'' @ os_sep @ ''Posts.xml''), Load (''uncommitted'' @ os_sep @ ''Tags.xml''),
               WriteParquet (''uncommitted'' @ os_sep @ ''posts.parquet''),
               WriteParquet (''uncommitted'' @ os_sep @ ''tags.parquet''),
               WriteParquet (''uncommitted'' @ os_sep @ ''posts_tags.parquet''),
               Verification ''Posts Check'', Verification ''Tags Check'',
               Verification ''Posts Tags Check'',
               Connect (''uncommitted'' @ os_sep @ ''warehouse.db''),
               ToSql ''check_results'' replace_mode,
               Execute (DROP_TABLE_IF_EXISTS ''posts''),
               Execute (CREATE_TABLE_IF_NOT_EXISTS ''posts'' posts_definition),
               Execute (DROP_TABLE_IF_EXISTS ''tags''),
               Execute (CREATE_TABLE_IF_NOT_EXISTS ''tags'' tags_definition),
               Execute (DROP_TABLE_IF_EXISTS ''posts_tags''),
               Execute (CREATE_TABLE_IF_NOT_EXISTS ''posts_tags'' posts_tags_definition),
               ToSql ''posts'' append_mode, ToSql ''tags'' append_mode,
               ToSql ''posts_tags'' append_mode, SparkStop,
               Print ''Data Loaded Successfully!'']"
    by blast
  then have c: "filter is_execute
     (run_events (uniform_engine ''Success'') sqlite_accepts ''uncommitted'' sample_world) =
     [Execute (DROP_TABLE_IF_EXISTS ''posts''),
      Execute (CREATE_TABLE_IF_NOT_EXISTS ''posts'' posts_definition),
      Execute (DROP_TABLE_IF_EXISTS ''tags''),
      Execute (CREATE_TABLE_IF_NOT_EXISTS ''tags'' tags_definition),
      Execute (DROP_TABLE_IF_EXISTS ''posts_tags''),
      Execute (CREATE_TABLE_IF_NOT_EXISTS ''posts_tags'' posts_tags_definition)]"
    "filter is_execute
      (take 10 (run_events (uniform_engine ''Success'') sqlite_accepts ''uncommitted'' sample_world)) = []"
    by simp_all
  from files' sample_join(1) sample_taken(1) a c show ?thesis by blast
qed

text \<open>
  Claim C10 (snapshot writes precede validation). On a run that loads both files and derives
  the association, the effects before the first verification are the two loads and the
  writes of the three snapshots, and the three verifications follow. Whatever the
  verifications report and whatever the store accepts, the three snapshot paths afterwards
  hold the tables of this run, whatever they held before. When the report has a row that
  is not \<open>Success\<close> the run exits with the failure message and the three entity tables
  of the store are unchanged.
\<close>

theorem snapshots_before_validation:
  assumes "xml_files w0 (path @ os_sep @ ''Posts.xml'') = Some raw_posts"
    and "xml_files w0 (path @ os_sep @ ''Tags.xml'') = Some raw_tags"
    and "PostsTags (parse_xml raw_posts) (parse_xml raw_tags) = Inr pt"
    and "report = aggregated_report run (parse_xml raw_posts) (parse_xml raw_tags) pt"
  shows "takeWhile (\<lambda>ev. \<not> is_verification ev) (run_events run accepts path w0) =
            [Load (path @ os_sep @ ''Posts.xml''), Load (path @ os_sep @ ''Tags.xml''),
             WriteParquet (path @ os_sep @ ''posts.parquet''),
             WriteParquet (path @ os_sep @ ''tags.parquet''),
             WriteParquet (path @ os_sep @ ''posts_tags.parquet'')]
       \<and> take 3 (dropWhile (\<lambda>ev. \<not> is_verification ev) (run_events run accepts path w0)) =
            [Verification ''Posts Check'', Verification ''Tags Check'',
             Verification ''Posts Tags Check'']
       \<and> parquet_files (snd (main run accepts path w0)) = (parquet_files w0)
            (path @ os_sep @ ''posts.parquet'' \<mapsto> parse_xml raw_posts,
             path @ os_sep @ ''tags.parquet'' \<mapsto> parse_xml raw_tags,
             path @ os_sep @ ''posts_tags.parquet'' \<mapsto> pt)
       \<and> ((\<exists>r \<in> set (rows report). not_success report r) \<longrightarrow>
             fst (main run accepts path w0) = SystemExit failure_message \<and>
             (\<forall>tab \<in> set entity_tables.
                databases (snd (main run accepts path w0)) (path @ os_sep @ ''warehouse.db'') tab =
                databases w0 (path @ os_sep @ ''warehouse.db'') tab))"
proof (cases "filter (not_success report) (rows report) = []")
  case True
  then have none: "\<not> (\<exists>r \<in> set (rows report). not_success report r)"
    by (simp add: filter_empty_conv)
  note m = main_pass [OF assms True refl]
  note e = run_events_pass [OF assms True refl]
  show ?thesis
    unfolding e using none m(3) by (simp add: numeral_3_eq_3)
next
  case False
  note m = main_abort [OF assms False]
  note e = run_events_abort [OF assms False]
  show ?thesis
    unfolding e m by (simp add: numeral_3_eq_3 entity_tables_def)
qed

text \<open>
  The statement of C10 at the sample world: the run aborts, and the earlier snapshot of the
  posts has been replaced.
\<close>

theorem snapshots_before_validation_witness:
  "xml_files sample_world ''uncommitted/Posts.xml'' = Some (as_read sample_posts) \<and>
   xml_files sample_world ''uncommitted/Tags.xml'' = Some (as_read sample_tags) \<and>
   PostsTags (parse_xml (as_read sample_posts)) (parse_xml (as_read sample_tags))
     = Inr sample_posts_tags \<and>
   parquet_files sample_world ''uncommitted/posts.parquet'' = Some earlier_posts \<and>
   fst (main VerificationSuite_run sqlite_accepts ''uncommitted'' sample_world)
     = SystemExit failure_message \<and>
   parquet_files (snd (main VerificationSuite_run sqlite_accepts ''uncommitted'' sample_world))
     ''uncommitted/posts.parquet'' = Some sample_posts \<and>
   parquet_files (snd (main VerificationSuite_run sqlite_accepts ''uncommitted'' sample_world))
     ''uncommitted/tags.parquet'' = Some sample_tags \<and>
   parquet_files (snd (main VerificationSuite_run sqlite_accepts ''uncommitted'' sample_world))
     ''uncommitted/posts_tags.parquet'' = Some sample_posts_tags"
proof -
  have bad: "\<exists>r \<in> set (rows (aggregated_report VerificationSuite_run (parse_xml (as_read sample_posts))
       (parse_xml (as_read sample_tags)) sample_posts_tags)).
     not_success (aggregated_report VerificationSuite_run (parse_xml (as_read sample_posts))
       (parse_xml (as_read sample_tags)) sample_posts_tags) r"
    using sample_fails [of "parse_xml (as_read sample_tags)" sample_posts_tags]
    by (simp add: filter_empty_conv)
  have files: "xml_files sample_world (''uncommitted'' @ os_sep @ ''Posts.xml'') = Some (as_read sample_posts)"
    "xml_files sample_world (''uncommitted'' @ os_sep @ ''Tags.xml'') = Some (as_read sample_tags)"
    unfolding sample_world_def by (rule sample_files)+
  have files': "xml_files sample_world ''uncommitted/Posts.xml'' = Some (as_read sample_posts)"
    "xml_files sample_world ''uncommitted/Tags.xml'' = Some (as_read sample_tags)"
    "parquet_files sample_world ''uncommitted/posts.parquet'' = Some earlier_posts"
    using files by (simp_all add: os_sep_def sample_world_def world_with_def)
  note t = snapshots_before_validation [OF files sample_join(1) refl,
      of VerificationSuite_run sqlite_accepts]
  from t bad have x: "fst (main VerificationSuite_run sqlite_accepts ''uncommitted'' sample_world)
      = SystemExit failure_message"
    by blast
  from t have "parquet_files (snd (main VerificationSuite_run sqlite_accepts ''uncommitted'' sample_world)) =
      (parquet_files sample_world)
            (''uncommitted'' @ os_sep @ ''posts.parquet'' \<mapsto> parse_xml (as_read sample_posts),
             ''uncommitted'' @ os_sep @ ''tags.parquet'' \<mapsto> parse_xml (as_read sample_tags),
             ''uncommitted'' @ os_sep @ ''posts_tags.parquet'' \<mapsto> sample_posts_tags)"
    by blast
  then have p: "parquet_files (snd (main VerificationSuite_run sqlite_accepts ''uncommitted'' sample_world))
     ''uncommitted/posts.parquet'' = Some sample_posts"
    "parquet_files (snd (main VerificationSuite_run sqlite_accepts ''uncommitted'' sample_world))
     ''uncommitted/tags.parquet'' = Some sample_tags"
    "parquet_files (snd (main VerificationSuite_run sqlite_accepts ''uncommitted'' sample_world))
     ''uncommitted/posts_tags.parquet'' = Some sample_posts_tags"
    by (simp_all add: os_sep_def parse_as_read)
  from files' sample_join(1) x p show ?thesis by blast
qed

section \<open>Properties of the constraint validation engine\<close>

lemma sample_statuses: "map (constraint_status) (constraint_results (VerificationSuite_run sample_check sample_posts)) = 
  [''Success'', ''Success'', ''Success'', ''Success'', ''Failure'', ''Success'', ''Failure'', ''Success'', ''Failure'', ''Success'']"
  by (simp add: VerificationSuite_run_def sample_check_def sample_posts_def evaluate_def column_values_def
    resolve_def cell_def non_null_def completeness_def string_of_int_def digit_char_def)

lemma evaluate_status:
  "constraint_status (evaluate c df) = (if satisfied c df then ''Success'' else ''Failure'')"
  by (simp add: evaluate_def)

lemma report_rows_length:
  "length (rows (check_result_to_df (VerificationSuite_run chk df))) = length (constraints chk)"
  by (simp add: check_result_to_df_def VerificationSuite_run_def)

lemma report_status_column:
  "map (col (check_result_to_df res) ''constraint_status'') (rows (check_result_to_df res)) =
     map (\<lambda>c. Some (StringV (constraint_status c))) (constraint_results res)"
proof -
  have "resolve (check_result_to_df res) ''constraint_status'' = Inr 4"
    by (rule resolve_status) (simp add: check_result_to_df_def)
  then show ?thesis
    by (simp add: col_def check_result_to_df_def cell_def)
qed

lemma count_statuses:
  "length (filter (\<lambda>s. s = Some (StringV ''Failure''))
       (map (\<lambda>c. Some (StringV (if satisfied c df then ''Success'' else ''Failure''))) cs))
     = length (filter (\<lambda>c. \<not> satisfied c df) cs)"
  "length (filter (\<lambda>s. s = Some (StringV ''Success''))
       (map (\<lambda>c. Some (StringV (if satisfied c df then ''Success'' else ''Failure''))) cs))
     = length (filter (\<lambda>c. satisfied c df) cs)"
  by (induction cs) auto

text \<open>
  Claim C3 (full-battery evaluation), for the engine modelled from the specification. The
  report of a check has exactly one row per constraint of the check; row by row, its
  status is \<open>Success\<close> when the constraint is satisfied and \<open>Failure\<close> when it is not, so
  the rows marked \<open>Failure\<close> are as many as the constraints that fail and those marked
  \<open>Success\<close> as many as the constraints that hold. The suites of the repository give 26,
  12 and 6 rows on any table. The sample check of ten constraints, of which the sample
  posts fail three, reports ten rows: three \<open>Failure\<close> and seven \<open>Success\<close>.
\<close>

theorem full_battery_evaluation:
  "length (rows (check_result_to_df (VerificationSuite_run chk df))) = length (constraints chk)
   \<and> map (col (check_result_to_df (VerificationSuite_run chk df)) ''constraint_status'')
         (rows (check_result_to_df (VerificationSuite_run chk df)))
       = map (\<lambda>c. Some (StringV (if satisfied c df then ''Success'' else ''Failure'')))
           (constraints chk)
   \<and> length (filter (\<lambda>s. s = Some (StringV ''Failure''))
         (map (col (check_result_to_df (VerificationSuite_run chk df)) ''constraint_status'')
            (rows (check_result_to_df (VerificationSuite_run chk df)))))
       = length (filter (\<lambda>c. \<not> satisfied c df) (constraints chk))
   \<and> length (filter (\<lambda>s. s = Some (StringV ''Success''))
         (map (col (check_result_to_df (VerificationSuite_run chk df)) ''constraint_status'')
            (rows (check_result_to_df (VerificationSuite_run chk df)))))
       = length (filter (\<lambda>c. satisfied c df) (constraints chk))
   \<and> length (rows (Posts_check VerificationSuite_run df)) = 26
   \<and> length (rows (Tags_check VerificationSuite_run df)) = 12
   \<and> length (rows (PostsTags_check VerificationSuite_run df)) = 6
   \<and> map (col (check_result_to_df (VerificationSuite_run sample_check sample_posts))
           ''constraint_status'')
         (rows (check_result_to_df (VerificationSuite_run sample_check sample_posts)))
       = map (\<lambda>s. Some (StringV s))
           [''Success'', ''Success'', ''Success'', ''Success'', ''Failure'',
            ''Success'', ''Failure'', ''Success'', ''Failure'', ''Success'']"
proof -
  let ?rep = "check_result_to_df (VerificationSuite_run chk df)"
  have s: "map (col ?rep ''constraint_status'') (rows ?rep)
       = map (\<lambda>c. Some (StringV (if satisfied c df then ''Success'' else ''Failure'')))
           (constraints chk)"
    unfolding report_status_column
    by (simp add: VerificationSuite_run_def evaluate_status comp_def)
  have n: "length (rows (Posts_check VerificationSuite_run df)) = 26"
    "length (rows (Tags_check VerificationSuite_run df)) = 12"
    "length (rows (PostsTags_check VerificationSuite_run df)) = 6"
    by (simp_all add: Posts_check_def Tags_check_def PostsTags_check_def report_rows_length
        Posts_suite_def Tags_suite_def PostsTags_suite_def)
  have e: "map (col (check_result_to_df (VerificationSuite_run sample_check sample_posts))
           ''constraint_status'')
         (rows (check_result_to_df (VerificationSuite_run sample_check sample_posts)))
       = map (\<lambda>s. Some (StringV s))
           [''Success'', ''Success'', ''Success'', ''Success'', ''Failure'',
            ''Success'', ''Failure'', ''Success'', ''Failure'', ''Success'']"
  proof -
    have m: "map (\<lambda>c. Some (StringV (constraint_status c))) rs =
        map (\<lambda>s. Some (StringV s)) (map constraint_status rs)" for rs
      by (simp add: comp_def)
    show ?thesis
      unfolding report_status_column m sample_statuses by (rule refl)
  qed
  show ?thesis
    unfolding s count_statuses using report_rows_length [of chk df] s n e by simp
qed

lemma report_message_column:
  "map (col (check_result_to_df res) ''constraint_message'') (rows (check_result_to_df res)) =
     map (\<lambda>c. Some (StringV (constraint_message c))) (constraint_results res)"
proof -
  have "resolve (check_result_to_df res) ''constraint_message'' = Inr 5"
    by (simp add: resolve_def check_result_to_df_def check_result_columns_def upt_rec)
  then show ?thesis
    by (simp add: col_def check_result_to_df_def cell_def)
qed

lemma report_row:
  assumes "k < length (constraints chk)"
  shows "col (check_result_to_df (VerificationSuite_run chk df)) ''constraint_status''
           (rows (check_result_to_df (VerificationSuite_run chk df)) ! k)
         = Some (StringV (constraint_status (evaluate (constraints chk ! k) df)))"
    and "col (check_result_to_df (VerificationSuite_run chk df)) ''constraint_message''
           (rows (check_result_to_df (VerificationSuite_run chk df)) ! k)
         = Some (StringV (constraint_message (evaluate (constraints chk ! k) df)))"
proof -
  let ?res = "VerificationSuite_run chk df"
  let ?rep = "check_result_to_df ?res"
  have len: "k < length (rows ?rep)" "k < length (constraint_results ?res)"
    using assms by (simp add: report_rows_length) (simp add: assms VerificationSuite_run_def)
  have "col ?rep ''constraint_status'' (rows ?rep ! k) =
      map (col ?rep ''constraint_status'') (rows ?rep) ! k"
    using len by simp
  also have "\<dots> = Some (StringV (constraint_status (constraint_results ?res ! k)))"
    unfolding report_status_column using len by simp
  finally show "col ?rep ''constraint_status'' (rows ?rep ! k)
         = Some (StringV (constraint_status (evaluate (constraints chk ! k) df)))"
    using assms by (simp add: VerificationSuite_run_def)
  have "col ?rep ''constraint_message'' (rows ?rep ! k) =
      map (col ?rep ''constraint_message'') (rows ?rep) ! k"
    using len by simp
  also have "\<dots> = Some (StringV (constraint_message (constraint_results ?res ! k)))"
    unfolding report_message_column using len by simp
  finally show "col ?rep ''constraint_message'' (rows ?rep ! k)
         = Some (StringV (constraint_message (evaluate (constraints chk ! k) df)))"
    using assms by (simp add: VerificationSuite_run_def)
qed

text \<open>
  Claim C4 (completeness arithmetic), for the engine modelled from the specification. On a
  table with at least one row, the report row of \<open>hasCompleteness(c, assertion, hint)\<close> is
  \<open>Success\<close> exactly when the assertion holds of the number of non-null values of \<open>c\<close>
  divided by the number of rows, and carries the hint as its message when it is \<open>Failure\<close>.
  With the assertion \<open>x >= 0.5\<close> on a table of ten rows, four non-null values give
  \<open>Failure\<close> with the hint and five give \<open>Success\<close>.
\<close>

theorem completeness_arithmetic:
  assumes "column_values df c = Some vs" and "vs \<noteq> []"
    and "k < length (constraints chk)"
    and "constraints chk ! k = hasCompleteness c assertion hint"
    and "report = check_result_to_df (VerificationSuite_run chk df)"
    and "fraction = of_nat (length (non_null vs)) / of_nat (length (rows df))"
  shows "col report ''constraint_status'' (rows report ! k)
           = Some (StringV (if assertion fraction then ''Success'' else ''Failure''))
       \<and> (\<not> assertion fraction \<longrightarrow>
            col report ''constraint_message'' (rows report ! k) = Some (StringV hint))
       \<and> (assertion = (\<lambda>x. x \<ge> 5 / 10) \<and> length (rows df) = 10 \<and> length (non_null vs) = 4 \<longrightarrow>
            col report ''constraint_status'' (rows report ! k) = Some (StringV ''Failure'') \<and>
            col report ''constraint_message'' (rows report ! k) = Some (StringV hint))
       \<and> (assertion = (\<lambda>x. x \<ge> 5 / 10) \<and> length (rows df) = 10 \<and> length (non_null vs) = 5 \<longrightarrow>
            col report ''constraint_status'' (rows report ! k) = Some (StringV ''Success''))"
proof -
  have len: "length vs = length (rows df)"
    using assms(1) by (auto simp: column_values_def split: sum.splits)
  have sat: "satisfied (hasCompleteness c assertion hint) df \<longleftrightarrow> assertion fraction"
    using assms(1,2,6) len by (simp add: completeness_def)
  have st: "col report ''constraint_status'' (rows report ! k)
           = Some (StringV (if assertion fraction then ''Success'' else ''Failure''))"
    unfolding assms(5) report_row(1) [OF assms(3)] assms(4)
    by (simp add: evaluate_def sat del: satisfied.simps)
  have msg: "\<not> assertion fraction \<Longrightarrow>
      col report ''constraint_message'' (rows report ! k) = Some (StringV hint)"
    unfolding assms(5) report_row(2) [OF assms(3)] assms(4)
    by (simp add: evaluate_def sat del: satisfied.simps)
  have four: "assertion = (\<lambda>x. x \<ge> 5 / 10) \<and> length (rows df) = 10 \<and> length (non_null vs) = 4
      \<Longrightarrow> \<not> assertion fraction"
    using assms(6) by simp
  have five: "assertion = (\<lambda>x. x \<ge> 5 / 10) \<and> length (rows df) = 10 \<and> length (non_null vs) = 5
      \<Longrightarrow> assertion fraction"
    using assms(6) by simp
  show ?thesis
    using st msg four five by simp
qed

text \<open>
  The statement of C4 at tables of ten rows with four and with five non-null titles.
\<close>

theorem completeness_arithmetic_witness:
  "column_values (ten_rows 4) ''Title'' =
     Some (replicate 4 (Some (StringV ''t'')) @ replicate (10 - 4) None) \<and>
   length (rows (ten_rows 4)) = 10 \<and>
   length (non_null (replicate 4 (Some (StringV ''t'')) @ replicate (10 - 4) None)) = 4 \<and>
   col (check_result_to_df (VerificationSuite_run completeness_check (ten_rows 4)))
       ''constraint_status''
       (rows (check_result_to_df (VerificationSuite_run completeness_check (ten_rows 4))) ! 0)
     = Some (StringV ''Failure'') \<and>
   col (check_result_to_df (VerificationSuite_run completeness_check (ten_rows 4)))
       ''constraint_message''
       (rows (check_result_to_df (VerificationSuite_run completeness_check (ten_rows 4))) ! 0)
     = Some (StringV ''It should be above 0.5!'') \<and>
   column_values (ten_rows 5) ''Title'' =
     Some (replicate 5 (Some (StringV ''t'')) @ replicate (10 - 5) None) \<and>
   length (rows (ten_rows 5)) = 10 \<and>
   length (non_null (replicate 5 (Some (StringV ''t'')) @ replicate (10 - 5) None)) = 5 \<and>
   col (check_result_to_df (VerificationSuite_run completeness_check (ten_rows 5)))
       ''constraint_status''
       (rows (check_result_to_df (VerificationSuite_run completeness_check (ten_rows 5))) ! 0)
     = Some (StringV ''Success'')"
proof -
  have v4: "column_values (ten_rows 4) ''Title'' =
     Some (replicate 4 (Some (StringV ''t'')) @ replicate (10 - 4) None)"
    by (simp add: column_values_def ten_rows_def resolve_def cell_def)
  have v5: "column_values (ten_rows 5) ''Title'' =
     Some (replicate 5 (Some (StringV ''t'')) @ replicate (10 - 5) None)"
    by (simp add: column_values_def ten_rows_def resolve_def cell_def)
  have ne: "replicate 4 (Some (StringV ''t'')) @ replicate (10 - 4) None \<noteq> []"
    "replicate 5 (Some (StringV ''t'')) @ replicate (10 - 5) None \<noteq> []"
    by simp_all
  have k: "0 < length (constraints completeness_check)"
    "constraints completeness_check ! 0 =
       hasCompleteness ''Title'' (\<lambda>x. x \<ge> 5 / 10) ''It should be above 0.5!''"
    by (simp_all add: completeness_check_def)
  have n: "length (rows (ten_rows 4)) = 10" "length (rows (ten_rows 5)) = 10"
    "length (non_null (replicate 4 (Some (StringV ''t'')) @ replicate (10 - 4) None)) = 4"
    "length (non_null (replicate 5 (Some (StringV ''t'')) @ replicate (10 - 5) None)) = 5"
    by (simp_all add: ten_rows_def non_null_def)
  from completeness_arithmetic [OF v4 ne(1) k refl refl] n
  have a: "col (check_result_to_df (VerificationSuite_run completeness_check (ten_rows 4)))
       ''constraint_status''
       (rows (check_result_to_df (VerificationSuite_run completeness_check (ten_rows 4))) ! 0)
     = Some (StringV ''Failure'')"
    "col (check_result_to_df (VerificationSuite_run completeness_check (ten_rows 4)))
       ''constraint_message''
       (rows (check_result_to_df (VerificationSuite_run completeness_check (ten_rows 4))) ! 0)
     = Some (StringV ''It should be above 0.5!'')"
    by blast+
  from completeness_arithmetic [OF v5 ne(2) k refl refl] n
  have b: "col (check_result_to_df (VerificationSuite_run completeness_check (ten_rows 5)))
       ''constraint_status''
       (rows (check_result_to_df (VerificationSuite_run completeness_check (ten_rows 5))) ! 0)
     = Some (StringV ''Success'')"
    by blast
  from v4 v5 n a b show ?thesis by blast
qed

text \<open>
  The counts of C3 at the sample check.
\<close>

theorem full_battery_evaluation_witness:
  "length (constraints sample_check) = 10 \<and>
   length (rows (check_result_to_df (VerificationSuite_run sample_check sample_posts))) = 10 \<and>
   length (filter (\<lambda>c. \<not> satisfied c sample_posts) (constraints sample_check)) = 3 \<and>
   length (filter (\<lambda>s. s = Some (StringV ''Failure''))
         (map (col (check_result_to_df (VerificationSuite_run sample_check sample_posts)) ''constraint_status'')
            (rows (check_result_to_df (VerificationSuite_run sample_check sample_posts))))) = 3 \<and>
   length (filter (\<lambda>s. s = Some (StringV ''Success''))
         (map (col (check_result_to_df (VerificationSuite_run sample_check sample_posts)) ''constraint_status'')
            (rows (check_result_to_df (VerificationSuite_run sample_check sample_posts))))) = 7"
proof -
  note t = full_battery_evaluation [of sample_check sample_posts]
  have n: "length (constraints sample_check) = 10"
    by (simp add: sample_check_def)
  from t have s: "map (col (check_result_to_df (VerificationSuite_run sample_check sample_posts))
           ''constraint_status'')
         (rows (check_result_to_df (VerificationSuite_run sample_check sample_posts)))
       = map (\<lambda>s. Some (StringV s))
           [''Success'', ''Success'', ''Success'', ''Success'', ''Failure'',
            ''Success'', ''Failure'', ''Success'', ''Failure'', ''Success'']"
    by blast
  have f: "length (filter (\<lambda>s. s = Some (StringV ''Failure''))
         (map (col (check_result_to_df (VerificationSuite_run sample_check sample_posts)) ''constraint_status'')
            (rows (check_result_to_df (VerificationSuite_run sample_check sample_posts))))) = 3"
    "length (filter (\<lambda>s. s = Some (StringV ''Success''))
         (map (col (check_result_to_df (VerificationSuite_run sample_check sample_posts)) ''constraint_status'')
            (rows (check_result_to_df (VerificationSuite_run sample_check sample_posts))))) = 7"
    unfolding s by simp_all
  from t have "length (filter (\<lambda>s. s = Some (StringV ''Failure''))
         (map (col (check_result_to_df (VerificationSuite_run sample_check sample_posts)) ''constraint_status'')
            (rows (check_result_to_df (VerificationSuite_run sample_check sample_posts)))))
     = length (filter (\<lambda>c. \<not> satisfied c sample_posts) (constraints sample_check))"
    by blast
  with f(1) have c: "length (filter (\<lambda>c. \<not> satisfied c sample_posts) (constraints sample_check)) = 3"
    by (simp only:)
  from t have "length (rows (check_result_to_df (VerificationSuite_run sample_check sample_posts)))
      = length (constraints sample_check)"
    by blast
  with n have r: "length (rows (check_result_to_df (VerificationSuite_run sample_check sample_posts))) = 10"
    by (simp only:)
  from n r c f show ?thesis by blast
qed

end
